theory Spec2Isabelle
  imports Complex_Main "HOL-Library.AList" "HOL-Library.List_Lexorder"
    "HOL-Library.Product_Lexorder" "HOL-Library.Code_Target_Nat"
begin

section \<open>JavaScript values used by the price-list generators\<close>

text \<open>
  A JavaScript string is a sequence of UTF-16 code units; it is modelled as a list of
  natural numbers, so that the byte-order mark U+FEFF and the non-ASCII white space that
  \<^verbatim>\<open>trim\<close> removes can be written. \<open>str\<close> turns an Isabelle string literal into
  such a list.
\<close>

type_synonym jsstring = "nat list"

definition str :: "string \<Rightarrow> jsstring" where
  "str s = map of_char s"

text \<open>
  A JavaScript number is a finite value, one of the two infinities, or NaN. Finite values
  are kept as exact rationals: a value beyond the binary64 range becomes an infinity
  (\<open>of_exact\<close>); the rounding of the significand to 53 bits, the underflow of tiny values
  to zero and the sign of zero are not modelled.
\<close>

datatype jsnum = NaN | NInf | Fin rat | PInf

definition binary64_limit :: rat where
  "binary64_limit = 2 ^ 1024 - 2 ^ 970"

definition of_exact :: "rat \<Rightarrow> jsnum" where
  "of_exact v = (if binary64_limit \<le> v then PInf
                 else if v \<le> - binary64_limit then NInf
                 else Fin v)"

fun isFinite :: "jsnum \<Rightarrow> bool" where
  "isFinite (Fin v) = True"
| "isFinite _ = False"

text \<open>The relational operators \<^verbatim>\<open><\<close>, \<^verbatim>\<open><=\<close> and \<^verbatim>\<open>===\<close> on numbers: every comparison with NaN is false.\<close>

fun js_lt :: "jsnum \<Rightarrow> jsnum \<Rightarrow> bool" where
  "js_lt NaN _ = False"
| "js_lt _ NaN = False"
| "js_lt _ NInf = False"
| "js_lt NInf _ = True"
| "js_lt PInf _ = False"
| "js_lt (Fin a) PInf = True"
| "js_lt (Fin a) (Fin b) = (a < b)"

fun js_eq :: "jsnum \<Rightarrow> jsnum \<Rightarrow> bool" where
  "js_eq NaN _ = False"
| "js_eq _ NaN = False"
| "js_eq a b = (a = b)"

definition js_le :: "jsnum \<Rightarrow> jsnum \<Rightarrow> bool" where
  "js_le a b = (js_lt a b \<or> js_eq a b)"

text \<open>Truthiness of a number: \<^verbatim>\<open>0\<close> and \<^verbatim>\<open>NaN\<close> are falsy.\<close>

fun num_truthy :: "jsnum \<Rightarrow> bool" where
  "num_truthy NaN = False"
| "num_truthy (Fin v) = (v \<noteq> 0)"
| "num_truthy _ = True"

subsection \<open>Strings\<close>

text \<open>White space and line terminators, the characters \<^verbatim>\<open>String.prototype.trim\<close> removes
  and \<^verbatim>\<open>\s\<close> matches.\<close>

definition is_ws :: "nat \<Rightarrow> bool" where
  "is_ws c = (c \<in> {9, 10, 11, 12, 13, 32, 160, 5760, 8232, 8233, 8239, 8287, 12288, 65279}
              \<or> (8192 \<le> c \<and> c \<le> 8202))"

definition is_line_terminator :: "nat \<Rightarrow> bool" where
  "is_line_terminator c = (c \<in> {10, 13, 8232, 8233})"

definition is_digit :: "nat \<Rightarrow> bool" where
  "is_digit c = (48 \<le> c \<and> c \<le> 57)"

definition trim :: "jsstring \<Rightarrow> jsstring" where
  "trim s = rev (dropWhile is_ws (rev (dropWhile is_ws s)))"

text \<open>\<^verbatim>\<open>toLowerCase\<close> on the ASCII letters; the case mappings of the other characters
  are not modelled (they are left as they are).\<close>

definition lower_unit :: "nat \<Rightarrow> nat" where
  "lower_unit c = (if 65 \<le> c \<and> c \<le> 90 then c + 32 else c)"

definition toLowerCase :: "jsstring \<Rightarrow> jsstring" where
  "toLowerCase s = map lower_unit s"

subsection \<open>Number applied to a string\<close>

text \<open>
  \<^verbatim>\<open>Number(s)\<close> for a string follows the grammar of string numeric literals: white
  space is stripped, the empty string is \<^verbatim>\<open>0\<close>, then a signed decimal literal
  (digits, an optional fraction, an optional exponent, or \<^verbatim>\<open>Infinity\<close>) or an unsigned
  hexadecimal, octal or binary integer; everything else is NaN.
\<close>

definition dec_digit :: "nat \<Rightarrow> nat" where
  "dec_digit c = c - 48"

definition is_hex_digit :: "nat \<Rightarrow> bool" where
  "is_hex_digit c = (is_digit c \<or> (65 \<le> c \<and> c \<le> 70) \<or> (97 \<le> c \<and> c \<le> 102))"

definition hex_digit :: "nat \<Rightarrow> nat" where
  "hex_digit c = (if is_digit c then c - 48 else if c \<le> 70 then c - 55 else c - 87)"

definition is_octal_digit :: "nat \<Rightarrow> bool" where
  "is_octal_digit c = (48 \<le> c \<and> c \<le> 55)"

definition is_binary_digit :: "nat \<Rightarrow> bool" where
  "is_binary_digit c = (c = 48 \<or> c = 49)"

definition digits_value :: "nat \<Rightarrow> (nat \<Rightarrow> nat) \<Rightarrow> jsstring \<Rightarrow> nat" where
  "digits_value base dv ds = foldl (\<lambda>a c. a * base + dv c) 0 ds"

definition js_neg :: "jsnum \<Rightarrow> jsnum" where
  "js_neg n = (case n of NaN \<Rightarrow> NaN | NInf \<Rightarrow> PInf | PInf \<Rightarrow> NInf | Fin v \<Rightarrow> Fin (- v))"

definition scale10 :: "rat \<Rightarrow> int \<Rightarrow> rat" where
  "scale10 m e = (if 0 \<le> e then m * 10 ^ nat e else m / 10 ^ nat (- e))"

definition parse_exponent :: "jsstring \<Rightarrow> int option" where
  "parse_exponent s =
     (case s of
        [] \<Rightarrow> Some 0
      | c # r \<Rightarrow>
          if c = 101 \<or> c = 69 then
            (let neg = (r \<noteq> [] \<and> hd r = 45);
                 ds = (if r \<noteq> [] \<and> (hd r = 45 \<or> hd r = 43) then tl r else r)
             in if ds \<noteq> [] \<and> list_all is_digit ds
                then Some (if neg then - int (digits_value 10 dec_digit ds)
                           else int (digits_value 10 dec_digit ds))
                else None)
          else None)"

definition unsigned_decimal :: "jsstring \<Rightarrow> jsnum" where
  "unsigned_decimal s =
     (if s = str ''Infinity'' then PInf
      else
        let ip = takeWhile is_digit s;
            r1 = dropWhile is_digit s;
            has_dot = (r1 \<noteq> [] \<and> hd r1 = 46);
            fp = (if has_dot then takeWhile is_digit (tl r1) else []);
            r2 = (if has_dot then dropWhile is_digit (tl r1) else r1)
        in if ip = [] \<and> fp = [] then NaN
           else (case parse_exponent r2 of
                   None \<Rightarrow> NaN
                 | Some e \<Rightarrow>
                     of_exact (scale10 (of_nat (digits_value 10 dec_digit ip)
                                        + of_nat (digits_value 10 dec_digit fp) / 10 ^ length fp) e)))"

definition signed_decimal :: "jsstring \<Rightarrow> jsnum" where
  "signed_decimal s =
     (case s of
        [] \<Rightarrow> NaN
      | c # r \<Rightarrow> if c = 45 then js_neg (unsigned_decimal r)
                 else if c = 43 then unsigned_decimal r
                 else unsigned_decimal s)"

definition prefixed_integer :: "nat \<Rightarrow> (nat \<Rightarrow> bool) \<Rightarrow> (nat \<Rightarrow> nat) \<Rightarrow> jsstring \<Rightarrow> jsnum" where
  "prefixed_integer base ok dv ds =
     (if ds \<noteq> [] \<and> list_all ok ds then of_exact (of_nat (digits_value base dv ds)) else NaN)"

definition stringToNumber :: "jsstring \<Rightarrow> jsnum" where
  "stringToNumber s =
     (let t = trim s in
      if t = [] then Fin 0
      else (case t of
              a # b # ds \<Rightarrow>
                if a = 48 \<and> (b = 120 \<or> b = 88) then prefixed_integer 16 is_hex_digit hex_digit ds
                else if a = 48 \<and> (b = 111 \<or> b = 79) then prefixed_integer 8 is_octal_digit dec_digit ds
                else if a = 48 \<and> (b = 98 \<or> b = 66) then prefixed_integer 2 is_binary_digit dec_digit ds
                else signed_decimal t
            | _ \<Rightarrow> signed_decimal t))"


section \<open>Price text parser\<close>


text \<open>\<^verbatim>\<open>looksLikeCurrency\<close>, the test \<^verbatim>\<open>/\d/\<close>.\<close>

definition looksLikeCurrency :: "jsstring \<Rightarrow> bool" where
  "looksLikeCurrency s = list_ex is_digit s"

text \<open>The character class \<^verbatim>\<open>[0-9.\-]\<close> whose complement the first replacement deletes.\<close>

definition keep_char :: "nat \<Rightarrow> bool" where
  "keep_char c = (is_digit c \<or> c = 46 \<or> c = 45)"

text \<open>
  The replacement \<^verbatim>\<open>/\.(?=.*\.)/g\<close> deletes every dot that has another dot later on
  the same line (\<^verbatim>\<open>.\<close> does not cross a line terminator).
\<close>

fun keepLastDot :: "jsstring \<Rightarrow> jsstring" where
  "keepLastDot [] = []"
| "keepLastDot (c # cs) =
     (if c = 46 \<and> 46 \<in> set (takeWhile (\<lambda>d. \<not> is_line_terminator d) cs)
      then keepLastDot cs else c # keepLastDot cs)"

text \<open>\<^verbatim>\<open>parsePrice\<close> of the stand-alone sheet script.\<close>

definition parsePrice :: "jsstring option \<Rightarrow> rat option" where
  "parsePrice raw =
     (case raw of
        None \<Rightarrow> None
      | Some r \<Rightarrow>
          let s = toLowerCase (trim r) in
          if s = [] \<or> s = str ''na'' \<or> s = str ''n/a'' \<or>
             s = str ''nonmemberprice'' \<or> s = str ''non-memberprice'' \<or>
             s = str ''non-member'' \<or> s = str ''non member'' \<or> s = str ''nonmember''
          then None
          else if \<not> looksLikeCurrency s then None
          else
            let cleaned = trim (keepLastDot (filter keep_char s)) in
            (case stringToNumber cleaned of Fin n \<Rightarrow> Some n | _ \<Rightarrow> None))"

text \<open>\<^verbatim>\<open>parsePrice\<close> of the OpenProvider registrar class; its list of sentinel words has
  no \<^verbatim>\<open>nonmember\<close>.\<close>

definition parsePrice_registrar :: "jsstring option \<Rightarrow> rat option" where
  "parsePrice_registrar raw =
     (case raw of
        None \<Rightarrow> None
      | Some r \<Rightarrow>
          let text = toLowerCase (trim r) in
          if text = [] \<or> text = str ''na'' \<or> text = str ''n/a'' \<or>
             text = str ''nonmemberprice'' \<or> text = str ''non-memberprice'' \<or>
             text = str ''non-member'' \<or> text = str ''non member''
          then None
          else if \<not> list_ex is_digit text then None
          else
            let cleaned = trim (keepLastDot (filter keep_char text)) in
            (case stringToNumber cleaned of Fin n \<Rightarrow> Some n | _ \<Rightarrow> None))"

section \<open>Sheet adapter\<close>

text \<open>
  The CSV text is split into records by the \<^verbatim>\<open>csv-parse\<close> library; the adapter starts
  from the parsed records, a list of rows, each a list of string cells.
\<close>

datatype error =
    EmptySheet
  | HeadersNotFound "jsstring list"
  | RequiredHeaderMissing jsstring "jsstring list"
  | RateUnusable
  | ApiFailure jsstring
  | FsError jsstring
  | JsonSyntaxError
  | TypeError

text \<open>The header \<^verbatim>\<open>Basic \ Pro \ Expert\<close> holds two backslashes (code unit 92).\<close>

definition REQUIRED_HEADERS :: "jsstring list" where
  "REQUIRED_HEADERS =
     [str ''TLD'', str ''Years'', str ''Operation'', str ''Price'',
      str ''Basic '' @ 92 # str '' Pro '' @ 92 # str '' Expert'',
      str ''Supreme'']"

text \<open>\<^verbatim>\<open>cleanHeader\<close> of the script and \<^verbatim>\<open>normalizeHeader\<close> of the class are the same
  function: every byte-order mark is deleted, then the text is trimmed.\<close>

definition cleanHeader :: "jsstring \<Rightarrow> jsstring" where
  "cleanHeader h = trim (filter (\<lambda>c. c \<noteq> 65279) h)"

definition normalizeHeader :: "jsstring \<Rightarrow> jsstring" where
  "normalizeHeader v = trim (filter (\<lambda>c. c \<noteq> 65279) v)"

text \<open>\<^verbatim>\<open>REQUIRED_HEADERS.every(h => row.includes(h))\<close>.\<close>

definition has_required :: "jsstring list \<Rightarrow> bool" where
  "has_required row = list_all (\<lambda>h. h \<in> set row) REQUIRED_HEADERS"

subsection \<open>Header location in the stand-alone script\<close>

text \<open>The loop of \<^verbatim>\<open>findHeaderRow\<close>, from index \<open>i\<close> up to \<^verbatim>\<open>MAX_SCAN\<close>; a row beyond
  the end of the array reads as the empty row.\<close>

function findHeaderRow_loop ::
  "jsstring list list \<Rightarrow> nat \<Rightarrow> nat \<Rightarrow> (jsstring list \<times> nat) option" where
  "findHeaderRow_loop allRows max_scan i =
     (if i < max_scan then
        (let row = map cleanHeader (if i < length allRows then allRows ! i else [])
         in if has_required row then Some (row, i + 1)
            else findHeaderRow_loop allRows max_scan (i + 1))
      else None)"
  by pat_completeness auto
termination
  by (relation "measure (\<lambda>(allRows, max_scan, i). max_scan - i)") auto

definition findHeaderRow :: "jsstring list list \<Rightarrow> error + (jsstring list \<times> nat)" where
  "findHeaderRow allRows =
     (case findHeaderRow_loop allRows (min 15 (length allRows)) 0 of
        Some found \<Rightarrow> Inr found
      | None \<Rightarrow> Inl (HeadersNotFound (case allRows of [] \<Rightarrow> [] | first # _ \<Rightarrow> first)))"

subsection \<open>Header location in the registrar class\<close>

text \<open>\<^verbatim>\<open>Array.prototype.findIndex\<close>; \<open>None\<close> is the result \<^verbatim>\<open>-1\<close>.\<close>

fun findIndex :: "('a \<Rightarrow> bool) \<Rightarrow> 'a list \<Rightarrow> nat option" where
  "findIndex P [] = None"
| "findIndex P (x # xs) = (if P x then Some 0 else map_option Suc (findIndex P xs))"

text \<open>The first statements of \<^verbatim>\<open>OpenproviderRegistrar.parse\<close>: the index of the header row
  and the normalized header row.\<close>

definition locate_header :: "jsstring list list \<Rightarrow> error + (nat \<times> jsstring list)" where
  "locate_header records =
     (if records = [] then Inl EmptySheet
      else
        let normalized = map (map normalizeHeader) records in
        (case findIndex has_required normalized of
           None \<Rightarrow> Inl (HeadersNotFound (case normalized of [] \<Rightarrow> [] | first # _ \<Rightarrow> first))
         | Some headerIndex \<Rightarrow> Inr (headerIndex, normalized ! headerIndex)))"

subsection \<open>Column binding\<close>




subsection \<open>Row processing\<close>




text \<open>What the loop body reads from a row it accepts; \<open>None\<close> for a row it skips.\<close>

record row_fields =
  rf_tld :: jsstring
  rf_years :: int
  rf_op :: jsstring
  rf_nonMember :: "rat option"
  rf_member :: "rat option"


text \<open>
  The per-TLD accumulator. A JavaScript object used as a dictionary is an association
  list in insertion order: \<open>map_of\<close> reads a key, \<open>AList.update\<close> writes one (in place when
  the key exists, at the end otherwise). Keys that name a member of \<^verbatim>\<open>Object.prototype\<close>,
  and keys that are array indices (which JavaScript enumerates first), are not modelled.
\<close>

record parsed_tld =
  maxYears :: int
  regular :: "(jsstring \<times> rat) list"
  member :: "(jsstring \<times> rat) list"

type_synonym sheet_data = "(jsstring \<times> parsed_tld) list"

definition entry_of :: "sheet_data \<Rightarrow> jsstring \<Rightarrow> parsed_tld" where
  "entry_of data tld =
     (case map_of data tld of
        None \<Rightarrow> \<lparr> maxYears = 0, regular = [], member = [] \<rparr>
      | Some e \<Rightarrow> e)"

definition set_price :: "jsstring \<Rightarrow> rat option \<Rightarrow> (jsstring \<times> rat) list \<Rightarrow> (jsstring \<times> rat) list" where
  "set_price op price ops = (case price of None \<Rightarrow> ops | Some p \<Rightarrow> AList.update op p ops)"

definition store_row :: "row_fields \<Rightarrow> sheet_data \<Rightarrow> sheet_data" where
  "store_row f data =
     (let e0 = entry_of data (rf_tld f);
          e1 = (if rf_nonMember f \<noteq> None \<or> rf_member f \<noteq> None
                then e0 \<lparr> maxYears := max (maxYears e0) (rf_years f) \<rparr> else e0);
          e2 = (if rf_years f = 1
                then e1 \<lparr> regular := set_price (rf_op f) (rf_nonMember f) (regular e1),
                          member := set_price (rf_op f) (rf_member f) (member e1) \<rparr>
                else e1)
      in AList.update (rf_tld f) e2 data)"






subsection \<open>The canonical price list of the sheet adapter\<close>

record price_band =
  band_id :: jsstring
  band_label :: jsstring
  operations :: "(jsstring \<times> rat) list"

record tld_pricing =
  tld :: jsstring
  item_maxYears :: "int option"
  bands :: "price_band list"








section \<open>Unified list\<close>

text \<open>
  The values a generator result can hold for a price: \<^verbatim>\<open>undefined\<close>, \<^verbatim>\<open>null\<close>, a boolean,
  a number or a string, and \<^verbatim>\<open>Number(v)\<close> for them.
\<close>

datatype jsval = Undefined | Null | Bool bool | Num jsnum | Str jsstring

definition toNumber :: "jsval \<Rightarrow> jsnum" where
  "toNumber v =
     (case v of
        Undefined \<Rightarrow> NaN
      | Null \<Rightarrow> Fin 0
      | Bool b \<Rightarrow> Fin (if b then 1 else 0)
      | Num n \<Rightarrow> n
      | Str s \<Rightarrow> stringToNumber s)"

text \<open>
  \<^verbatim>\<open>sortObjectKeys\<close> on an object of numbers: a new object filled in the order of the
  sorted keys. The default \<^verbatim>\<open>sort\<close> compares strings by code units, the lexicographic
  order on lists.
\<close>

definition sortObjectKeys :: "(jsstring \<times> 'v) list \<Rightarrow> (jsstring \<times> 'v) list" where
  "sortObjectKeys obj =
     List.map_filter (\<lambda>key. map_option (Pair key) (map_of obj key)) (sort (map fst obj))"

definition normalizeRegularPriceMap :: "(jsstring \<times> jsval) list option \<Rightarrow> (jsstring \<times> jsnum) list" where
  "normalizeRegularPriceMap m =
     (case m of
        None \<Rightarrow> []
      | Some entries \<Rightarrow>
          sortObjectKeys
            (foldl (\<lambda>out (op, v). let n = toNumber v in
                                     if isFinite n then AList.update op n out else out)
                   [] entries))"

definition cheapestMetric :: "(jsstring \<times> jsnum) list option \<Rightarrow> jsnum" where
  "cheapestMetric regularMap =
     (case regularMap of
        None \<Rightarrow> PInf
      | Some m \<Rightarrow>
          (case map_of m (str ''create'') of
             Some (Fin c) \<Rightarrow> Fin c
           | _ \<Rightarrow> foldl (\<lambda>min (k, n). if isFinite n \<and> js_lt n min then n else min) PInf m))"

text \<open>
  A generator result holds \<^verbatim>\<open>data\<close>, an object from TLD to entry; of an entry only the
  \<^verbatim>\<open>regular-price\<close> map is read (\<open>None\<close> when the entry is \<^verbatim>\<open>null\<close> or has no such map).
\<close>

type_synonym tld_data = "(jsstring \<times> (jsstring \<times> jsval) list option) list"

record generator_result =
  result_data :: "tld_data option"

record candidate =
  provider :: jsstring
  cand_tld :: jsstring
  regular_price :: "(jsstring \<times> jsnum) list"

type_synonym candidates_by_tld = "(jsstring \<times> candidate list) list"

text \<open>\<^verbatim>\<open>options.providers\<close> when it is a non-empty array, the keys of the results otherwise;
  \<open>[]\<close> stands for an absent or empty \<^verbatim>\<open>providers\<close> option.\<close>

definition include_providers :: "(jsstring \<times> generator_result) list \<Rightarrow> jsstring list \<Rightarrow> jsstring list" where
  "include_providers resultsByRegistrar providers =
     (if providers \<noteq> [] then providers else map fst resultsByRegistrar)"

definition add_candidate ::
  "jsstring \<Rightarrow> candidates_by_tld \<Rightarrow> jsstring \<times> (jsstring \<times> jsval) list option \<Rightarrow> candidates_by_tld" where
  "add_candidate p candidatesByTld te =
     (let regular = normalizeRegularPriceMap (snd te) in
      if regular = [] then candidatesByTld
      else AList.update (fst te)
             ((case map_of candidatesByTld (fst te) of None \<Rightarrow> [] | Some options \<Rightarrow> options)
              @ [\<lparr> provider = p, cand_tld = fst te, regular_price = regular \<rparr>])
             candidatesByTld)"

definition add_provider ::
  "(jsstring \<times> generator_result) list \<Rightarrow> candidates_by_tld \<Rightarrow> jsstring \<Rightarrow> candidates_by_tld" where
  "add_provider resultsByRegistrar candidatesByTld p =
     (case map_of resultsByRegistrar p of
        None \<Rightarrow> candidatesByTld
      | Some result \<Rightarrow>
          (case result_data result of
             None \<Rightarrow> candidatesByTld
           | Some d \<Rightarrow> foldl (add_candidate p) candidatesByTld d))"

definition collect_candidates ::
  "(jsstring \<times> generator_result) list \<Rightarrow> jsstring list \<Rightarrow> candidates_by_tld" where
  "collect_candidates resultsByRegistrar providers =
     foldl (add_provider resultsByRegistrar) [] (include_providers resultsByRegistrar providers)"

text \<open>The selection loop over the options of one TLD, from \<^verbatim>\<open>options[1]\<close> on.\<close>

fun pick_best :: "candidate \<Rightarrow> jsnum \<Rightarrow> candidate list \<Rightarrow> candidate" where
  "pick_best best bestMetric [] = best"
| "pick_best best bestMetric (cand # rest) =
     (let metric = cheapestMetric (Some (regular_price cand)) in
      if js_lt metric bestMetric \<or> (js_eq metric bestMetric \<and> provider cand < provider best)
      then pick_best cand metric rest
      else pick_best best bestMetric rest)"

definition select_best :: "candidate list \<Rightarrow> candidate option" where
  "select_best options =
     (case options of
        [] \<Rightarrow> None
      | first # rest \<Rightarrow> Some (pick_best first (cheapestMetric (Some (regular_price first))) rest))"

text \<open>The final \<^verbatim>\<open>sort\<close> orders the selected entries by TLD, then by provider.\<close>

definition generateUnifiedList ::
  "(jsstring \<times> generator_result) list \<Rightarrow> jsstring list \<Rightarrow> candidate list" where
  "generateUnifiedList resultsByRegistrar providers =
     sort_key (\<lambda>c. (cand_tld c, provider c))
       (List.map_filter (\<lambda>(t, options). select_best options)
          (collect_candidates resultsByRegistrar providers))"

text \<open>For stating the selection: the candidates of a TLD, as the providers in order offer
  them, and the metric of a candidate.\<close>

definition offers :: "generator_result \<Rightarrow> jsstring \<Rightarrow> (jsstring \<times> jsnum) list list" where
  "offers result t =
     (case result_data result of
        None \<Rightarrow> []
      | Some d \<Rightarrow>
          filter (\<lambda>regular. regular \<noteq> [])
            (map (\<lambda>te. normalizeRegularPriceMap (snd te)) (filter (\<lambda>te. fst te = t) d)))"

definition candidates_of ::
  "(jsstring \<times> generator_result) list \<Rightarrow> jsstring list \<Rightarrow> jsstring \<Rightarrow> candidate list" where
  "candidates_of resultsByRegistrar providers t =
     concat (map (\<lambda>p. case map_of resultsByRegistrar p of
                        None \<Rightarrow> []
                      | Some result \<Rightarrow>
                          map (\<lambda>regular. \<lparr> provider = p, cand_tld = t, regular_price = regular \<rparr>)
                              (offers result t))
                 (include_providers resultsByRegistrar providers))"

definition metric :: "candidate \<Rightarrow> jsnum" where
  "metric c = cheapestMetric (Some (regular_price c))"

text \<open>For the proofs: \<open>beats a b\<close> when \<open>a\<close> is at least as good a choice as \<open>b\<close>, and the
  shape of the candidate table.\<close>

definition beats :: "candidate \<Rightarrow> candidate \<Rightarrow> bool" where
  "beats a b = (js_lt (metric a) (metric b) \<or> (metric a = metric b \<and> provider a \<le> provider b))"

text \<open>The options stored for a TLD.\<close>

definition options_of :: "candidates_by_tld \<Rightarrow> jsstring \<Rightarrow> candidate list" where
  "options_of cbt t = (case map_of cbt t of None \<Rightarrow> [] | Some options \<Rightarrow> options)"

definition well_formed :: "candidates_by_tld \<Rightarrow> bool" where
  "well_formed cbt = (distinct (map fst cbt) \<and> (\<forall>(t, options) \<in> set cbt. options \<noteq> []))"

section \<open>API adapter\<close>

text \<open>
  The adapter takes XML apart with regular expressions. The model starts from what the
  expressions match: a pricing response is its status, its error text and its
  \<^verbatim>\<open>ProductType\<close> blocks, each with its attributes and its \<^verbatim>\<open>ProductCategory\<close> blocks, each with
  its \<^verbatim>\<open>Product\<close> blocks, each with the attributes of its \<^verbatim>\<open>Price\<close> elements. An attribute
  object (the result of \<^verbatim>\<open>parseAttributes\<close>) is an association list.
\<close>

type_synonym attrs = "(jsstring \<times> jsstring) list"

record product =
  product_attrs :: attrs
  product_prices :: "attrs list"

record product_category =
  category_attrs :: attrs
  category_products :: "product list"

record product_type =
  type_attrs :: attrs
  type_categories :: "product_category list"

record pricing_response =
  response_status :: "jsstring option"
  response_error :: jsstring
  response_types :: "product_type list"

text \<open>\<^verbatim>\<open>toUpperCase\<close> on the ASCII letters; as for \<open>toLowerCase\<close> the other case mappings are
  not modelled.\<close>

definition upper_unit :: "nat \<Rightarrow> nat" where
  "upper_unit c = (if 97 \<le> c \<and> c \<le> 122 then c - 32 else c)"

definition toUpperCase :: "jsstring \<Rightarrow> jsstring" where
  "toUpperCase s = map upper_unit s"

text \<open>\<^verbatim>\<open>attrs.K || ''\<close> and \<^verbatim>\<open>Number(attrs.K)\<close> for an attribute.\<close>

definition attr_or_empty :: "attrs \<Rightarrow> jsstring \<Rightarrow> jsstring" where
  "attr_or_empty a k = (case map_of a k of None \<Rightarrow> [] | Some v \<Rightarrow> v)"

definition attr_number :: "attrs \<Rightarrow> jsstring \<Rightarrow> jsnum" where
  "attr_number a k = (case map_of a k of None \<Rightarrow> NaN | Some v \<Rightarrow> stringToNumber v)"

definition actionToKey :: "jsstring \<Rightarrow> jsstring option" where
  "actionToKey action =
     (let a = toUpperCase action in
      if a = str ''REGISTER'' then Some (str ''create'')
      else if a = str ''RENEW'' then Some (str ''renew'')
      else if a = str ''TRANSFER'' then Some (str ''transfer'')
      else if a = str ''REACTIVATE'' \<or> a = str ''RESTORE'' then Some (str ''restore'')
      else None)"

definition categoryToKey :: "jsstring \<Rightarrow> jsstring option" where
  "categoryToKey name =
     (let a = toUpperCase name in
      if a = str ''REGISTER'' then Some (str ''create'')
      else if a = str ''RENEW'' then Some (str ''renew'')
      else if a = str ''TRANSFER'' then Some (str ''transfer'')
      else if a = str ''REACTIVATE'' then Some (str ''restore'')
      else None)"

definition opKey_of :: "attrs \<Rightarrow> jsstring \<Rightarrow> jsstring option" where
  "opKey_of catAttrs action =
     (case categoryToKey (attr_or_empty catAttrs (str ''Name'')) of
        Some k \<Rightarrow> Some k
      | None \<Rightarrow> actionToKey action)"

definition ACTIONS :: "jsstring list" where
  "ACTIONS = [str ''REGISTER'', str ''RENEW'', str ''TRANSFER'', str ''REACTIVATE'']"

text \<open>\<^verbatim>\<open>Number(priceAttrs.Duration ?? priceAttrs.DurationRangeStart ?? 0)\<close>.\<close>

definition duration_of :: "attrs \<Rightarrow> jsnum" where
  "duration_of priceAttrs =
     (case map_of priceAttrs (str ''Duration'') of
        Some v \<Rightarrow> stringToNumber v
      | None \<Rightarrow>
          (case map_of priceAttrs (str ''DurationRangeStart'') of
             Some v \<Rightarrow> stringToNumber v
           | None \<Rightarrow> Fin 0))"

text \<open>A table from TLD to operation to price, and the result of a pricing parse.\<close>

type_synonym price_table = "(jsstring \<times> (jsstring \<times> jsnum) list) list"

record pricing =
  pr_sale :: price_table
  pr_regular :: price_table
  pr_currency :: jsstring

definition table_row :: "price_table \<Rightarrow> jsstring \<Rightarrow> (jsstring \<times> jsnum) list" where
  "table_row table t = (case map_of table t of None \<Rightarrow> [] | Some ops \<Rightarrow> ops)"

text \<open>\<^verbatim>\<open>if (!table[tld]) table[tld] = {}\<close>.\<close>

definition ensure_row :: "jsstring \<Rightarrow> price_table \<Rightarrow> price_table" where
  "ensure_row t table = (case map_of table t of None \<Rightarrow> table @ [(t, [])] | Some _ \<Rightarrow> table)"

definition set_cell :: "jsstring \<Rightarrow> jsstring \<Rightarrow> jsnum \<Rightarrow> price_table \<Rightarrow> price_table" where
  "set_cell t opKey amount table =
     AList.update t (AList.update opKey amount (table_row table t)) table"

subsection \<open>The generator \<^verbatim>\<open>getPricingForAction\<close>\<close>

text \<open>The test that lets a \<^verbatim>\<open>Price\<close> element through:
  \<^verbatim>\<open>duration !== 1 || (durationType && durationType !== 'YEAR')\<close> is false.\<close>

definition kept_by_generator :: "attrs \<Rightarrow> bool" where
  "kept_by_generator priceAttrs =
     (let duration = duration_of priceAttrs;
          durationType = toUpperCase (attr_or_empty priceAttrs (str ''DurationType''))
      in \<not> (\<not> js_eq duration (Fin 1) \<or> (durationType \<noteq> [] \<and> durationType \<noteq> str ''YEAR'')))"

definition retail_of :: "attrs \<Rightarrow> jsnum" where
  "retail_of priceAttrs =
     (case map_of priceAttrs (str ''RegularPrice'') of
        Some v \<Rightarrow> stringToNumber v
      | None \<Rightarrow>
          (case map_of priceAttrs (str ''RetailPrice'') of
             Some v \<Rightarrow> stringToNumber v
           | None \<Rightarrow> attr_number priceAttrs (str ''Price'')))"

definition generator_price :: "jsstring \<Rightarrow> jsstring \<Rightarrow> pricing \<Rightarrow> attrs \<Rightarrow> pricing" where
  "generator_price opKey t acc priceAttrs =
     (if \<not> kept_by_generator priceAttrs then acc
      else
        let userPrice = attr_number priceAttrs (str ''YourPrice'');
            retail = retail_of priceAttrs;
            currency = (if attr_or_empty priceAttrs (str ''Currency'') \<noteq> []
                        then attr_or_empty priceAttrs (str ''Currency'') else pr_currency acc);
            sale0 = ensure_row t (pr_sale acc);
            regular0 = ensure_row t (pr_regular acc)
        in \<lparr> pr_sale = (if isFinite userPrice then set_cell t opKey userPrice sale0 else sale0),
             pr_regular = (if isFinite retail then set_cell t opKey retail regular0 else regular0),
             pr_currency = currency \<rparr>)"

definition generator_product :: "jsstring \<Rightarrow> pricing \<Rightarrow> product \<Rightarrow> pricing" where
  "generator_product opKey acc pd =
     (let t = attr_or_empty (product_attrs pd) (str ''Name'') in
      if t = [] then acc else foldl (generator_price opKey t) acc (product_prices pd))"

definition generator_category :: "jsstring \<Rightarrow> pricing \<Rightarrow> product_category \<Rightarrow> pricing" where
  "generator_category action acc cat =
     (case opKey_of (category_attrs cat) action of
        None \<Rightarrow> acc
      | Some opKey \<Rightarrow> foldl (generator_product opKey) acc (category_products cat))"

definition is_domain_type :: "product_type \<Rightarrow> bool" where
  "is_domain_type pt =
     (let ptName = toUpperCase (attr_or_empty (type_attrs pt) (str ''Name''))
      in ptName = str ''DOMAIN'' \<or> ptName = str ''DOMAINS'')"

definition generator_type :: "jsstring \<Rightarrow> pricing \<Rightarrow> product_type \<Rightarrow> pricing" where
  "generator_type action acc pt =
     (if \<not> is_domain_type pt then acc
      else foldl (generator_category action) acc (type_categories pt))"

definition getPricingForAction :: "jsstring \<Rightarrow> pricing_response \<Rightarrow> error + pricing" where
  "getPricingForAction action response =
     (if response_status response \<noteq> Some (str ''OK'')
      then Inl (ApiFailure (response_error response))
      else Inr (foldl (generator_type action)
                  \<lparr> pr_sale = [], pr_regular = [], pr_currency = str ''USD'' \<rparr>
                  (response_types response)))"

subsection \<open>The class method \<^verbatim>\<open>parsePricing\<close>\<close>

text \<open>The test that skips a \<^verbatim>\<open>Price\<close> element: \<^verbatim>\<open>duration && duration !== 1\<close>.\<close>

definition skipped_by_registrar :: "attrs \<Rightarrow> bool" where
  "skipped_by_registrar priceAttrs =
     (let duration = duration_of priceAttrs in num_truthy duration \<and> \<not> js_eq duration (Fin 1))"

definition amount_of :: "attrs \<Rightarrow> jsnum" where
  "amount_of priceAttrs =
     (case map_of priceAttrs (str ''Price'') of
        Some v \<Rightarrow> stringToNumber v
      | None \<Rightarrow>
          (case map_of priceAttrs (str ''RegularPrice'') of
             Some v \<Rightarrow> stringToNumber v
           | None \<Rightarrow>
               (case map_of priceAttrs (str ''RetailPrice'') of
                  Some v \<Rightarrow> stringToNumber v
                | None \<Rightarrow> Fin 0)))"

definition registrar_price :: "jsstring \<Rightarrow> jsstring \<Rightarrow> pricing \<Rightarrow> attrs \<Rightarrow> pricing" where
  "registrar_price opKey t acc priceAttrs =
     (if skipped_by_registrar priceAttrs then acc
      else
        let amount = amount_of priceAttrs in
        if \<not> isFinite amount \<or> js_le amount (Fin 0) then acc
        else
          let currency = (if attr_or_empty priceAttrs (str ''Currency'') \<noteq> []
                          then attr_or_empty priceAttrs (str ''Currency'') else pr_currency acc);
              priceType = toLowerCase (attr_or_empty priceAttrs (str ''PriceType''))
          in if priceType = str ''sale''
             then acc \<lparr> pr_sale := set_cell t opKey amount (pr_sale acc), pr_currency := currency \<rparr>
             else acc \<lparr> pr_regular := set_cell t opKey amount (pr_regular acc),
                        pr_currency := currency \<rparr>)"

definition registrar_product :: "jsstring \<Rightarrow> pricing \<Rightarrow> product \<Rightarrow> pricing" where
  "registrar_product opKey acc pd =
     (let t = attr_or_empty (product_attrs pd) (str ''Name'') in
      if t = [] then acc else foldl (registrar_price opKey t) acc (product_prices pd))"

definition registrar_category :: "jsstring \<Rightarrow> pricing \<Rightarrow> product_category \<Rightarrow> pricing" where
  "registrar_category action acc cat =
     (case opKey_of (category_attrs cat) action of
        None \<Rightarrow> acc
      | Some opKey \<Rightarrow> foldl (registrar_product opKey) acc (category_products cat))"

definition registrar_type :: "jsstring \<Rightarrow> pricing \<Rightarrow> product_type \<Rightarrow> pricing" where
  "registrar_type action acc pt =
     (if \<not> is_domain_type pt then acc
      else foldl (registrar_category action) acc (type_categories pt))"

text \<open>One turn of the loop over \<^verbatim>\<open>ACTIONS\<close>; \<open>pricingXml\<close> gives the response of an action.\<close>

definition registrar_action ::
  "(jsstring \<Rightarrow> pricing_response) \<Rightarrow> error + pricing \<Rightarrow> jsstring \<Rightarrow> error + pricing" where
  "registrar_action pricingXml st action =
     (case st of
        Inl e \<Rightarrow> Inl e
      | Inr acc \<Rightarrow>
          if response_status (pricingXml action) \<noteq> Some (str ''OK'')
          then Inl (ApiFailure (response_error (pricingXml action)))
          else Inr (foldl (registrar_type action) acc (response_types (pricingXml action))))"

definition parsePricing :: "(jsstring \<Rightarrow> pricing_response) \<Rightarrow> error + pricing" where
  "parsePricing pricingXml =
     foldl (registrar_action pricingXml)
       (Inr \<lparr> pr_sale = [], pr_regular = [], pr_currency = str ''USD'' \<rparr>) ACTIONS"


subsection \<open>Metadata filter and output\<close>

text \<open>Of the parsed metadata of a TLD the two functions read the fields below.\<close>

record tld_meta =
  MaxRegisterYears :: jsnum
  MaxRenewYears :: jsnum
  MaxTransferYears :: jsnum
  IsApiRegisterable :: bool

text \<open>\<^verbatim>\<open>x || 0\<close> and \<^verbatim>\<open>Math.max\<close> on numbers.\<close>

definition or_zero :: "jsnum \<Rightarrow> jsnum" where
  "or_zero n = (if num_truthy n then n else Fin 0)"

definition js_max :: "jsnum \<Rightarrow> jsnum \<Rightarrow> jsnum" where
  "js_max a b = (if a = NaN \<or> b = NaN then NaN else if js_lt a b then b else a)"

text \<open>\<^verbatim>\<open>mergeMaps\<close>.\<close>

definition mergeMaps :: "price_table \<Rightarrow> price_table \<Rightarrow> price_table" where
  "mergeMaps target source =
     foldl (\<lambda>tgt (t, ops).
              foldl (\<lambda>tgt' (k, v). set_cell t k v tgt') (ensure_row t tgt) ops)
           target source"

text \<open>The keys of a \<^verbatim>\<open>Set\<close> built from a list: first occurrences, in order.\<close>

definition set_keys :: "jsstring list \<Rightarrow> jsstring list" where
  "set_keys ks = rev (remdups (rev ks))"

record namecheap_entry =
  nc_maxYears :: jsnum
  nc_regular :: "(jsstring \<times> jsnum) list"
  nc_sale :: "(jsstring \<times> jsnum) list"

text \<open>The loop of \<^verbatim>\<open>namecheapGenerator.generate\<close> over the TLDs of the combined tables.\<close>

definition generate_tld ::
  "(jsstring \<times> tld_meta) list \<Rightarrow> price_table \<Rightarrow> price_table \<Rightarrow>
   (jsstring \<times> namecheap_entry) list \<Rightarrow> jsstring \<Rightarrow> (jsstring \<times> namecheap_entry) list" where
  "generate_tld meta combinedSale combinedRegular out t =
     (let info = map_of meta t in
      if (case info of None \<Rightarrow> False | Some m \<Rightarrow> \<not> IsApiRegisterable m) then out
      else
        let saleMap = table_row combinedSale t;
            regularMap = table_row combinedRegular t
        in if saleMap = [] \<and> regularMap = [] then out
           else
             let maxYears =
                   (case info of
                      None \<Rightarrow> Fin 0
                    | Some m \<Rightarrow>
                        js_max (js_max (or_zero (MaxRegisterYears m)) (or_zero (MaxRenewYears m)))
                               (or_zero (MaxTransferYears m)))
             in AList.update t \<lparr> nc_maxYears = or_zero maxYears, nc_regular = regularMap,
                                  nc_sale = saleMap \<rparr> out)"

definition generate_data ::
  "(jsstring \<times> tld_meta) list \<Rightarrow> price_table \<Rightarrow> price_table \<Rightarrow> (jsstring \<times> namecheap_entry) list" where
  "generate_data meta combinedSale combinedRegular =
     foldl (generate_tld meta combinedSale combinedRegular) []
       (set_keys (map fst combinedSale @ map fst combinedRegular))"

text \<open>\<^verbatim>\<open>generate\<close>: the four pricing requests, merged, then the loop above.\<close>

definition generate_action ::
  "(jsstring \<Rightarrow> pricing_response) \<Rightarrow> error + pricing \<Rightarrow> jsstring \<Rightarrow> error + pricing" where
  "generate_action responses st action =
     (case st of
        Inl e \<Rightarrow> Inl e
      | Inr combined \<Rightarrow>
          (case getPricingForAction action (responses action) of
             Inl e \<Rightarrow> Inl e
           | Inr r \<Rightarrow>
               Inr \<lparr> pr_sale = mergeMaps (pr_sale combined) (pr_sale r),
                     pr_regular = mergeMaps (pr_regular combined) (pr_regular r),
                     pr_currency = (if pr_currency r \<noteq> [] then pr_currency r
                                    else pr_currency combined) \<rparr>))"

definition namecheap_generate ::
  "(jsstring \<times> tld_meta) list \<Rightarrow> (jsstring \<Rightarrow> pricing_response) \<Rightarrow>
   error + (jsstring \<times> namecheap_entry) list" where
  "namecheap_generate meta responses =
     (case foldl (generate_action responses)
             (Inr \<lparr> pr_sale = [], pr_regular = [], pr_currency = str ''USD'' \<rparr>) ACTIONS of
        Inl e \<Rightarrow> Inl e
      | Inr combined \<Rightarrow> Inr (generate_data meta (pr_sale combined) (pr_regular combined)))"

text \<open>\<^verbatim>\<open>NamecheapRegistrar.map\<close>: the items of the price list, over the sorted TLDs of the
  metadata and of the two tables.\<close>

record api_band =
  ab_id :: jsstring
  ab_label :: jsstring
  ab_operations :: "(jsstring \<times> jsnum) list"

record namecheap_item =
  ni_tld :: jsstring
  ni_maxYears :: "jsnum option"
  ni_bands :: "api_band list"

definition registrar_item ::
  "(jsstring \<times> tld_meta) list \<Rightarrow> price_table \<Rightarrow> price_table \<Rightarrow> jsstring \<Rightarrow>
   namecheap_item option" where
  "registrar_item tldMetadata regularTable saleTable t =
     (let meta = map_of tldMetadata t;
          maxYears =
            (case meta of
               None \<Rightarrow> None
             | Some m \<Rightarrow>
                 if num_truthy (MaxRegisterYears m) then Some (MaxRegisterYears m)
                 else if num_truthy (MaxRenewYears m) then Some (MaxRenewYears m)
                 else None);
          bands0 = (case map_of regularTable t of
                      None \<Rightarrow> []
                    | Some ops \<Rightarrow> [\<lparr> ab_id = str ''regular'', ab_label = str ''Regular price'',
                                     ab_operations = ops \<rparr>]);
          bands1 = (case map_of saleTable t of
                      None \<Rightarrow> bands0
                    | Some ops \<Rightarrow> bands0 @ [\<lparr> ab_id = str ''sale'', ab_label = str ''Sale price'',
                                               ab_operations = ops \<rparr>])
      in if bands1 = [] then None
         else Some \<lparr> ni_tld = t, ni_maxYears = maxYears, ni_bands = bands1 \<rparr>)"

definition registrar_map ::
  "(jsstring \<times> tld_meta) list \<Rightarrow> pricing \<Rightarrow> namecheap_item list" where
  "registrar_map tldMetadata parsed =
     List.map_filter (registrar_item tldMetadata (pr_regular parsed) (pr_sale parsed))
       (sort (set_keys (map fst tldMetadata @ map fst (pr_regular parsed)
                        @ map fst (pr_sale parsed))))"

text \<open>\<^verbatim>\<open>parse\<close> followed by \<^verbatim>\<open>map\<close> of the class.\<close>

definition namecheap_items ::
  "(jsstring \<times> tld_meta) list \<Rightarrow> (jsstring \<Rightarrow> pricing_response) \<Rightarrow>
   error + namecheap_item list" where
  "namecheap_items tldMetadata pricingXml =
     (case parsePricing pricingXml of
        Inl e \<Rightarrow> Inl e
      | Inr parsed \<Rightarrow> Inr (registrar_map tldMetadata parsed))"

text \<open>The metadata of a TLD marks it as not registerable through the API.\<close>

definition marked_unregisterable :: "(jsstring \<times> tld_meta) list \<Rightarrow> jsstring \<Rightarrow> bool" where
  "marked_unregisterable meta t =
     (case map_of meta t of None \<Rightarrow> False | Some m \<Rightarrow> \<not> IsApiRegisterable m)"

section \<open>Fixed-table adapter\<close>

text \<open>Arithmetic on numbers: the exact result, an infinity beyond the binary64 range.\<close>

definition js_div :: "jsnum \<Rightarrow> jsnum \<Rightarrow> jsnum" where
  "js_div x y =
     (case (x, y) of
        (Fin a, Fin b) \<Rightarrow>
          if b = 0 then (if a = 0 then NaN else if 0 < a then PInf else NInf)
          else of_exact (a / b)
      | (Fin a, PInf) \<Rightarrow> Fin 0
      | (Fin a, NInf) \<Rightarrow> Fin 0
      | (PInf, Fin b) \<Rightarrow> if 0 \<le> b then PInf else NInf
      | (NInf, Fin b) \<Rightarrow> if 0 \<le> b then NInf else PInf
      | _ \<Rightarrow> NaN)"

definition js_mul :: "jsnum \<Rightarrow> jsnum \<Rightarrow> jsnum" where
  "js_mul x y =
     (case (x, y) of
        (Fin a, Fin b) \<Rightarrow> of_exact (a * b)
      | (Fin a, PInf) \<Rightarrow> if a = 0 then NaN else if 0 < a then PInf else NInf
      | (Fin a, NInf) \<Rightarrow> if a = 0 then NaN else if 0 < a then NInf else PInf
      | (PInf, Fin b) \<Rightarrow> if b = 0 then NaN else if 0 < b then PInf else NInf
      | (NInf, Fin b) \<Rightarrow> if b = 0 then NaN else if 0 < b then NInf else PInf
      | (PInf, PInf) \<Rightarrow> PInf
      | (NInf, NInf) \<Rightarrow> PInf
      | (PInf, NInf) \<Rightarrow> NInf
      | (NInf, PInf) \<Rightarrow> NInf
      | _ \<Rightarrow> NaN)"

text \<open>\<^verbatim>\<open>Math.round\<close>: the nearest integer, a half rounded up.\<close>

definition js_round :: "jsnum \<Rightarrow> jsnum" where
  "js_round x = (case x of Fin a \<Rightarrow> Fin (of_int \<lfloor>a + 1 / 2\<rfloor>) | _ \<Rightarrow> x)"

definition round2 :: "jsnum \<Rightarrow> jsnum" where
  "round2 n = js_div (js_round (js_mul n (Fin 100))) (Fin 100)"

definition NGN_PRICES :: "(jsstring \<times> rat) list" where
  "NGN_PRICES =
     [(str ''ng'', 15000), (str ''com.ng'', 7000), (str ''org.ng'', 7000), (str ''name.ng'', 400)]"

text \<open>
  The FX feed is an object from currency code to an entry object; of an entry the field
  \<^verbatim>\<open>rate\<close> is read. \<^verbatim>\<open>fx?.ngn || fx?.NGN\<close> takes the first of the two entries that exists.
\<close>

type_synonym fx_feed = "(jsstring \<times> (jsstring \<times> jsval) list) list"

definition ngn_entry :: "fx_feed \<Rightarrow> (jsstring \<times> jsval) list option" where
  "ngn_entry fx =
     (case map_of fx (str ''ngn'') of
        Some e \<Rightarrow> Some e
      | None \<Rightarrow> map_of fx (str ''NGN''))"

text \<open>\<^verbatim>\<open>entry?.rate\<close>.\<close>

definition rate_field :: "(jsstring \<times> jsval) list option \<Rightarrow> jsval" where
  "rate_field entry =
     (case entry of
        None \<Rightarrow> Undefined
      | Some e \<Rightarrow> (case map_of e (str ''rate'') of None \<Rightarrow> Undefined | Some v \<Rightarrow> v))"

text \<open>The operation map \<^verbatim>\<open>{ create: usd, renew: usd }\<close> of every namespace.\<close>

definition convert_prices :: "jsnum \<Rightarrow> (jsstring \<times> (jsstring \<times> jsnum) list) list" where
  "convert_prices ngnPerUsd =
     map (\<lambda>(t, ngnPrice).
            let usd = round2 (js_div (Fin ngnPrice) ngnPerUsd)
            in (t, [(str ''create'', usd), (str ''renew'', usd)]))
         NGN_PRICES"

subsection \<open>The registrar class\<close>

text \<open>\<^verbatim>\<open>NiraRegistrar.parse\<close>: the rate, or the fatal error.\<close>

definition nira_parse :: "fx_feed \<Rightarrow> error + jsnum" where
  "nira_parse fxData =
     (let rate = toNumber (rate_field (ngn_entry fxData)) in
      if \<not> isFinite rate \<or> js_le rate (Fin 0) then Inl RateUnusable else Inr rate)"

text \<open>\<^verbatim>\<open>parse\<close> followed by \<^verbatim>\<open>map\<close>: the regular band of every namespace.\<close>

definition nira_registrar :: "fx_feed \<Rightarrow> error + (jsstring \<times> (jsstring \<times> jsnum) list) list" where
  "nira_registrar fxData =
     (case nira_parse fxData of
        Inl e \<Rightarrow> Inl e
      | Inr rate \<Rightarrow> Inr (convert_prices rate))"

subsection \<open>The generator\<close>

text \<open>Truthiness of a value, and \<^verbatim>\<open>Number.isFinite\<close>, which is false for everything that
  is not a number.\<close>

definition truthy :: "jsval \<Rightarrow> bool" where
  "truthy v =
     (case v of
        Undefined \<Rightarrow> False
      | Null \<Rightarrow> False
      | Bool b \<Rightarrow> b
      | Num n \<Rightarrow> num_truthy n
      | Str s \<Rightarrow> s \<noteq> [])"

definition Number_isFinite :: "jsval \<Rightarrow> bool" where
  "Number_isFinite v = (case v of Num n \<Rightarrow> isFinite n | _ \<Rightarrow> False)"

text \<open>\<^verbatim>\<open>niraGenerator.generate\<close> on the FX feed: the test is
  \<^verbatim>\<open>!ngnPerUsd || !Number.isFinite(ngnPerUsd)\<close>.\<close>

definition nira_generator :: "fx_feed \<Rightarrow> error + (jsstring \<times> (jsstring \<times> jsnum) list) list" where
  "nira_generator fxJson =
     (let ngnPerUsd = rate_field (ngn_entry fxJson) in
      if \<not> truthy ngnPerUsd \<or> \<not> Number_isFinite ngnPerUsd then Inl RateUnusable
      else Inr (convert_prices (toNumber ngnPerUsd)))"

section \<open>Cache\<close>

text \<open>
  The cache file holds JSON. \<^verbatim>\<open>fs.readFile\<close> gives the text or fails with an error code;
  \<^verbatim>\<open>JSON.parse\<close> is a parameter \<open>json_parse\<close> of the model (\<open>None\<close> for a syntax error).
\<close>

datatype json =
    JNull
  | JBool bool
  | JNum jsnum
  | JStr jsstring
  | JArr "json list"
  | JObj "(jsstring \<times> json) list"






subsection \<open>\<^verbatim>\<open>getPricelist\<close>\<close>









section \<open>Example inputs\<close>





text \<open>Two providers quoting \<^verbatim>\<open>com\<close> (6.50 against 8.27) and \<^verbatim>\<open>net\<close> (no \<^verbatim>\<open>create\<close>
  price, \<^verbatim>\<open>renew\<close> 5 and \<^verbatim>\<open>transfer\<close> 9 at both).\<close>

definition unify_example :: "(jsstring \<times> generator_result) list" where
  "unify_example =
     [(str ''b'',
       \<lparr> result_data = Some
           [(str ''com'', Some [(str ''create'', Num (Fin (13 / 2)))]),
            (str ''net'', Some [(str ''renew'', Num (Fin 5)), (str ''transfer'', Num (Fin 9))]),
            (str ''org'', None)] \<rparr>),
      (str ''a'',
       \<lparr> result_data = Some
           [(str ''com'', Some [(str ''create'', Num (Fin (827 / 100)))]),
            (str ''net'', Some [(str ''transfer'', Str (str ''9'')), (str ''renew'', Num (Fin 5))])] \<rparr>)]"

definition unify_com :: candidate where
  "unify_com = \<lparr> provider = str ''b'', cand_tld = str ''com'',
                 regular_price = [(str ''create'', Fin (13 / 2))] \<rparr>"

definition unify_com_a :: candidate where
  "unify_com_a = \<lparr> provider = str ''a'', cand_tld = str ''com'',
                   regular_price = [(str ''create'', Fin (827 / 100))] \<rparr>"

definition unify_net :: candidate where
  "unify_net = \<lparr> provider = str ''a'', cand_tld = str ''net'',
                 regular_price = [(str ''renew'', Fin 5), (str ''transfer'', Fin 9)] \<rparr>"

definition unify_net_b :: candidate where
  "unify_net_b = \<lparr> provider = str ''b'', cand_tld = str ''net'',
                   regular_price = [(str ''renew'', Fin 5), (str ''transfer'', Fin 9)] \<rparr>"

text \<open>A pricing response with one product \<^verbatim>\<open>com\<close> in the category \<^verbatim>\<open>register\<close> and the
  given \<^verbatim>\<open>Price\<close> elements; metadata that marks \<^verbatim>\<open>com\<close> as not registerable through the
  API.\<close>

definition price_response :: "attrs list \<Rightarrow> pricing_response" where
  "price_response ps =
     \<lparr> response_status = Some (str ''OK''), response_error = [],
       response_types =
         [\<lparr> type_attrs = [(str ''Name'', str ''DOMAIN'')],
            type_categories =
              [\<lparr> category_attrs = [(str ''Name'', str ''register'')],
                 category_products =
                   [\<lparr> product_attrs = [(str ''Name'', str ''com'')],
                      product_prices = ps \<rparr>] \<rparr>] \<rparr>] \<rparr>"

definition one_year_price :: attrs where
  "one_year_price =
     [(str ''Duration'', str ''1''), (str ''DurationType'', str ''YEAR''),
      (str ''Price'', str ''8.88''), (str ''YourPrice'', str ''8.88''),
      (str ''RegularPrice'', str ''10.98''), (str ''Currency'', str ''USD'')]"




definition unregisterable_com :: "(jsstring \<times> tld_meta) list" where
  "unregisterable_com =
     [(str ''com'', \<lparr> MaxRegisterYears = Fin 10, MaxRenewYears = Fin 9,
                      MaxTransferYears = Fin 1, IsApiRegisterable = False \<rparr>)]"

text \<open>An FX feed with a negative rate, and one with 1500 NGN for a dollar.\<close>

definition fx_negative :: fx_feed where
  "fx_negative = [(str ''ngn'', [(str ''rate'', Num (Fin (- 1500)))])]"

definition fx_1500 :: fx_feed where
  "fx_1500 = [(str ''ngn'', [(str ''rate'', Num (Fin 1500)), (str ''inverseRate'', Num (Fin (1 / 1500)))])]"







section \<open>Properties of the price text parser\<close>

lemma binary64_limit_code [code]:
  "binary64_limit = (let x = (((16 ^ 4) ^ 4) ^ 4) ^ 4 in x - x / 18014398509481984)"
  by (simp add: binary64_limit_def)

text \<open>For evaluation: a value of ordinary size is compared with a small bound first.\<close>

lemma of_exact_code [code]:
  "of_exact v =
     (if - 1000000000000000000000 < v \<and> v < 1000000000000000000000 then Fin v
      else if binary64_limit \<le> v then PInf
      else if v \<le> - binary64_limit then NInf
      else Fin v)"
proof -
  have "(1000000000000000000000::rat) < binary64_limit"
    by (simp add: binary64_limit_def)
  then show ?thesis by (auto simp: of_exact_def)
qed

lemma keep_char_not_ws: "keep_char c \<Longrightarrow> \<not> is_ws c"
  by (auto simp: keep_char_def is_ws_def is_digit_def)

lemma keep_char_not_line_terminator: "keep_char c \<Longrightarrow> \<not> is_line_terminator c"
  by (auto simp: keep_char_def is_line_terminator_def is_digit_def)

lemma keep_char_lower_unit: "keep_char (lower_unit c) = keep_char c"
  by (auto simp: keep_char_def lower_unit_def is_digit_def)

lemma lower_unit_keep: "keep_char c \<Longrightarrow> lower_unit c = c"
  by (auto simp: keep_char_def lower_unit_def is_digit_def)

lemma is_digit_lower_unit: "is_digit (lower_unit c) = is_digit c"
  by (auto simp: lower_unit_def is_digit_def)

lemma is_digit_not_ws: "is_digit c \<Longrightarrow> \<not> is_ws c"
  by (auto simp: is_ws_def is_digit_def)

lemma filter_dropWhile_disjoint:
  "(\<And>c. Q c \<Longrightarrow> \<not> P c) \<Longrightarrow> filter P (dropWhile Q s) = filter P s"
  by (induction s) auto

lemma filter_trim: "(\<And>c. is_ws c \<Longrightarrow> \<not> P c) \<Longrightarrow> filter P (trim s) = filter P s"
  by (simp add: trim_def filter_dropWhile_disjoint flip: rev_filter)

lemma filter_keep_toLowerCase: "filter keep_char (toLowerCase s) = filter keep_char s"
  by (induction s) (auto simp: toLowerCase_def keep_char_lower_unit lower_unit_keep)

lemma filter_keep_normalized: "filter keep_char (toLowerCase (trim r)) = filter keep_char r"
proof -
  have "filter keep_char (trim r) = filter keep_char r"
    by (rule filter_trim) (auto dest: keep_char_not_ws)
  then show ?thesis by (simp add: filter_keep_toLowerCase)
qed

lemma list_ex_filter: "list_ex P s = (filter P s \<noteq> [])"
  by (induction s) auto

lemma digit_normalized: "list_ex is_digit (toLowerCase (trim r)) = list_ex is_digit r"
proof -
  have "filter is_digit (toLowerCase (trim r)) = [] \<longleftrightarrow> filter is_digit (trim r) = []"
    by (simp add: toLowerCase_def filter_map o_def is_digit_lower_unit)
  also have "filter is_digit (trim r) = filter is_digit r"
    by (rule filter_trim) (auto dest: is_digit_not_ws)
  finally show ?thesis by (simp add: list_ex_filter)
qed

lemma trim_id: "(\<And>c. c \<in> set s \<Longrightarrow> \<not> is_ws c) \<Longrightarrow> trim s = s"
proof -
  assume a: "\<And>c. c \<in> set s \<Longrightarrow> \<not> is_ws c"
  have d: "dropWhile is_ws xs = xs" if "\<And>c. c \<in> set xs \<Longrightarrow> \<not> is_ws c" for xs
    using that by (cases xs) auto
  have "dropWhile is_ws s = s" using a by (rule d)
  moreover have "dropWhile is_ws (rev s) = rev s" using a by (intro d) simp
  ultimately show ?thesis by (simp add: trim_def)
qed

lemma set_keepLastDot: "set (keepLastDot s) \<subseteq> set s"
  by (induction s) auto

lemma trim_cleaned: "trim (keepLastDot (filter keep_char s)) = keepLastDot (filter keep_char s)"
proof (rule trim_id)
  fix c assume "c \<in> set (keepLastDot (filter keep_char s))"
  then have "c \<in> set (filter keep_char s)" using set_keepLastDot by blast
  then show "\<not> is_ws c" by (simp add: keep_char_not_ws)
qed

lemma takeWhile_all: "(\<And>c. c \<in> set s \<Longrightarrow> P c) \<Longrightarrow> takeWhile P s = s"
  by (induction s) auto

lemma keepLastDot_no_dot: "46 \<notin> set s \<Longrightarrow> keepLastDot s = s"
  by (induction s) (auto dest: set_takeWhileD)

lemma keepLastDot_last_dot:
  assumes "\<And>c. c \<in> set a \<union> set b \<Longrightarrow> \<not> is_line_terminator c" and "46 \<notin> set b"
  shows "keepLastDot (a @ 46 # b) = filter (\<lambda>c. c \<noteq> 46) a @ 46 # b"
  using assms
proof (induction a)
  case Nil
  then show ?case by (auto simp: keepLastDot_no_dot dest: set_takeWhileD)
next
  case (Cons x a)
  have lt: "\<not> is_line_terminator 46" by (simp add: is_line_terminator_def)
  have "takeWhile (\<lambda>d. \<not> is_line_terminator d) (a @ 46 # b) = a @ 46 # b"
    using Cons.prems(1) lt by (intro takeWhile_all) auto
  with Cons show ?case by auto
qed

lemma sentinel_no_digit:
  "\<not> list_ex is_digit (str ''na'')" "\<not> list_ex is_digit (str ''n/a'')"
  "\<not> list_ex is_digit (str ''nonmemberprice'')" "\<not> list_ex is_digit (str ''non-memberprice'')"
  "\<not> list_ex is_digit (str ''non-member'')" "\<not> list_ex is_digit (str ''non member'')"
  "\<not> list_ex is_digit (str ''nonmember'')"
  by (simp_all add: str_def is_digit_def)

lemma parsePrice_digit:
  assumes "list_ex is_digit r"
  shows "parsePrice (Some r) =
    (case stringToNumber (keepLastDot (filter keep_char r)) of Fin n \<Rightarrow> Some n | _ \<Rightarrow> None)"
proof -
  let ?s = "toLowerCase (trim r)"
  have d: "list_ex is_digit ?s" using assms by (simp add: digit_normalized)
  then have ne: "?s \<noteq> []" by auto
  have ns: "?s \<noteq> str ''na''" "?s \<noteq> str ''n/a''" "?s \<noteq> str ''nonmemberprice''"
    "?s \<noteq> str ''non-memberprice''" "?s \<noteq> str ''non-member''" "?s \<noteq> str ''non member''"
    "?s \<noteq> str ''nonmember''"
    using d sentinel_no_digit by metis+
  show ?thesis
    using d ne ns
    by (simp add: parsePrice_def Let_def looksLikeCurrency_def trim_cleaned filter_keep_normalized)
qed

lemma parsePrice_no_digit: "\<not> list_ex is_digit r \<Longrightarrow> parsePrice (Some r) = None"
  by (simp add: parsePrice_def Let_def looksLikeCurrency_def digit_normalized)

lemma parsePrice_registrar_eq: "parsePrice_registrar raw = parsePrice raw"
proof (cases raw)
  case None
  then show ?thesis by (simp add: parsePrice_def parsePrice_registrar_def)
next
  case (Some r)
  show ?thesis
  proof (cases "toLowerCase (trim r) = str ''nonmember''")
    case True
    then show ?thesis using sentinel_no_digit(7) Some
      by (simp add: parsePrice_def parsePrice_registrar_def Let_def looksLikeCurrency_def)
  next
    case False
    then show ?thesis using Some
      by (simp add: parsePrice_def parsePrice_registrar_def Let_def looksLikeCurrency_def)
  qed
qed










text \<open>
  Claim C3. \<^verbatim>\<open>parsePrice\<close> (both copies, which agree on every input) returns absent for
  a missing cell, for text that is empty after trimming, for the seven sentinel words
  compared after trimming and lower-casing, and for text without a digit. For text with a
  digit it deletes every character other than a digit, a dot and a minus sign from the raw
  text, keeps only the last dot (the text before the last dot loses its dots, the last dot
  and what follows stay), and returns the number the cleaned text denotes when that number
  is finite and absent otherwise; \<^verbatim>\<open>"1.234.56"\<close> gives 1234.56 and \<^verbatim>\<open>"$8.27"\<close> gives
  8.27. The function is total: every input has a result, none raises.
\<close>

theorem parsePrice_contract:
  "parsePrice None = None
   \<and> parsePrice_registrar raw = parsePrice raw
   \<and> (trim r = [] \<longrightarrow> parsePrice (Some r) = None)
   \<and> (toLowerCase (trim r) \<in> {str ''na'', str ''n/a'', str ''nonmemberprice'',
          str ''non-memberprice'', str ''non-member'', str ''non member'', str ''nonmember''}
        \<longrightarrow> parsePrice (Some r) = None)
   \<and> (\<not> list_ex is_digit r \<longrightarrow> parsePrice (Some r) = None)
   \<and> (list_ex is_digit r \<longrightarrow>
        parsePrice (Some r) =
          (case stringToNumber (keepLastDot (filter keep_char r)) of
             Fin n \<Rightarrow> Some n | _ \<Rightarrow> None))
   \<and> (46 \<notin> set (filter keep_char r) \<longrightarrow> keepLastDot (filter keep_char r) = filter keep_char r)
   \<and> (filter keep_char r = a @ 46 # b \<and> 46 \<notin> set b \<longrightarrow>
        keepLastDot (filter keep_char r) = filter (\<lambda>c. c \<noteq> 46) a @ 46 # b)
   \<and> parsePrice (Some (str ''1.234.56'')) = Some (123456 / 100)
   \<and> parsePrice (Some (str ''$8.27'')) = Some (827 / 100)"
proof -
  have c1: "parsePrice None = None" by (simp add: parsePrice_def)
  have c3: "trim r = [] \<longrightarrow> parsePrice (Some r) = None"
    by (simp add: parsePrice_def toLowerCase_def)
  have c4: "toLowerCase (trim r) \<in> {str ''na'', str ''n/a'', str ''nonmemberprice'',
          str ''non-memberprice'', str ''non-member'', str ''non member'', str ''nonmember''}
        \<longrightarrow> parsePrice (Some r) = None"
    by (auto simp: parsePrice_def Let_def)
  have c8: "filter keep_char r = a @ 46 # b \<and> 46 \<notin> set b \<longrightarrow>
        keepLastDot (filter keep_char r) = filter (\<lambda>c. c \<noteq> 46) a @ 46 # b"
  proof (intro impI, elim conjE)
    assume eq: "filter keep_char r = a @ 46 # b" and nb: "46 \<notin> set b"
    have "\<And>c. c \<in> set a \<union> set b \<Longrightarrow> \<not> is_line_terminator c"
    proof -
      fix c assume "c \<in> set a \<union> set b"
      then have "c \<in> set (filter keep_char r)" using eq by auto
      then show "\<not> is_line_terminator c" by (simp add: keep_char_not_line_terminator)
    qed
    then show "keepLastDot (filter keep_char r) = filter (\<lambda>c. c \<noteq> 46) a @ 46 # b"
      using nb eq keepLastDot_last_dot[of a b] by simp
  qed
  have c9: "parsePrice (Some (str ''1.234.56'')) = Some (123456 / 100)" by code_simp
  have c10: "parsePrice (Some (str ''$8.27'')) = Some (827 / 100)" by code_simp
  show ?thesis
    using c1 c3 c4 c8 c9 c10 parsePrice_registrar_eq[of raw] parsePrice_no_digit[of r]
      parsePrice_digit[of r] keepLastDot_no_dot[of "filter keep_char r"]
    by blast
qed

theorem parsePrice_contract_witness:
  "trim (str ''   '') = [] \<and> parsePrice (Some (str ''   '')) = None
   \<and> toLowerCase (trim (str '' N/A '')) = str ''n/a'' \<and> parsePrice (Some (str '' N/A '')) = None
   \<and> \<not> list_ex is_digit (str ''call us'') \<and> parsePrice (Some (str ''call us'')) = None
   \<and> list_ex is_digit (str ''EUR 1.234.56'')
   \<and> parsePrice (Some (str ''EUR 1.234.56'')) =
       (case stringToNumber (keepLastDot (filter keep_char (str ''EUR 1.234.56''))) of
          Fin n \<Rightarrow> Some n | _ \<Rightarrow> None)
   \<and> filter keep_char (str ''EUR 1.234.56'') = str ''1'' @ 46 # str ''234'' @ 46 # str ''56''
   \<and> keepLastDot (filter keep_char (str ''EUR 1.234.56'')) = str ''1234'' @ 46 # str ''56''
   \<and> 46 \<notin> set (filter keep_char (str ''$827'')) 
   \<and> keepLastDot (filter keep_char (str ''$827'')) = filter keep_char (str ''$827'')"
proof -
  have h1: "trim (str ''   '') = []" by code_simp
  have h2: "toLowerCase (trim (str '' N/A '')) = str ''n/a''" by code_simp
  have h3: "\<not> list_ex is_digit (str ''call us'')" by code_simp
  have h4: "list_ex is_digit (str ''EUR 1.234.56'')" by code_simp
  have h5: "filter keep_char (str ''EUR 1.234.56'') = (str ''1'' @ 46 # str ''234'') @ 46 # str ''56''"
    by code_simp
  have h6: "46 \<notin> set (str ''56'')" by code_simp
  have h7: "46 \<notin> set (filter keep_char (str ''$827''))" by code_simp
  have h8: "filter (\<lambda>c. c \<noteq> 46) (str ''1'' @ 46 # str ''234'') = str ''1234''" by code_simp
  have e1: "parsePrice (Some (str ''   '')) = None"
    using parsePrice_contract[of None "str ''   ''"] h1 by blast
  have e2: "parsePrice (Some (str '' N/A '')) = None"
    using parsePrice_contract[of None "str '' N/A ''"] h2 by simp
  have e3: "parsePrice (Some (str ''call us'')) = None"
    using parsePrice_contract[of None "str ''call us''"] h3 by blast
  have e4: "parsePrice (Some (str ''EUR 1.234.56'')) =
       (case stringToNumber (keepLastDot (filter keep_char (str ''EUR 1.234.56''))) of
          Fin n \<Rightarrow> Some n | _ \<Rightarrow> None)"
    using parsePrice_contract[of None "str ''EUR 1.234.56''"] h4 by blast
  have e5: "keepLastDot (filter keep_char (str ''EUR 1.234.56'')) = str ''1234'' @ 46 # str ''56''"
    using parsePrice_contract[of None "str ''EUR 1.234.56''" "str ''1'' @ 46 # str ''234''" "str ''56''"]
      h5 h6 h8 by metis
  have e6: "keepLastDot (filter keep_char (str ''$827'')) = filter keep_char (str ''$827'')"
    using parsePrice_contract[of None "str ''$827''"] h7 by blast
  show ?thesis using h1 h2 h3 h4 h5 h7 e1 e2 e3 e4 e5 e6 by simp
qed




section \<open>Header location\<close>

lemma findHeaderRow_loop_found:
  "findHeaderRow_loop allRows m i = Some (row, k) \<Longrightarrow> m \<le> length allRows \<Longrightarrow>
     (\<exists>j. k = j + 1 \<and> i \<le> j \<and> j < m \<and> row = map cleanHeader (allRows ! j) \<and> has_required row
          \<and> (\<forall>l. i \<le> l \<and> l < j \<longrightarrow> \<not> has_required (map cleanHeader (allRows ! l))))"
proof (induction allRows m i rule: findHeaderRow_loop.induct)
  case (1 allRows max_scan i)
  show ?case
  proof (cases "i < max_scan")
    case False
    with "1.prems" show ?thesis by simp
  next
    case True
    then have il: "i < length allRows" using "1.prems" by simp
    show ?thesis
    proof (cases "has_required (map cleanHeader (allRows ! i))")
      case True
      with \<open>i < max_scan\<close> il "1.prems" show ?thesis by (auto simp: Let_def)
    next
      case False
      with \<open>i < max_scan\<close> il "1.prems"
      have "findHeaderRow_loop allRows max_scan (i + 1) = Some (row, k)" by (simp add: Let_def)
      from "1.IH"[OF \<open>i < max_scan\<close> refl _ this "1.prems"(2)] False il
      obtain j where j: "k = j + 1" "i + 1 \<le> j" "j < max_scan" "row = map cleanHeader (allRows ! j)"
        "has_required row" "\<forall>l. i + 1 \<le> l \<and> l < j \<longrightarrow> \<not> has_required (map cleanHeader (allRows ! l))"
        by auto
      have "\<forall>l. i \<le> l \<and> l < j \<longrightarrow> \<not> has_required (map cleanHeader (allRows ! l))"
      proof (intro allI impI)
        fix l assume "i \<le> l \<and> l < j"
        then show "\<not> has_required (map cleanHeader (allRows ! l))"
          using False j(6) by (cases "l = i") auto
      qed
      with j show ?thesis by auto
    qed
  qed
qed

lemma findHeaderRow_loop_none:
  "findHeaderRow_loop allRows m i = None \<Longrightarrow> m \<le> length allRows \<Longrightarrow>
     (\<forall>l. i \<le> l \<and> l < m \<longrightarrow> \<not> has_required (map cleanHeader (allRows ! l)))"
proof (induction allRows m i rule: findHeaderRow_loop.induct)
  case (1 allRows max_scan i)
  show ?case
  proof (cases "i < max_scan")
    case False
    then show ?thesis by auto
  next
    case True
    then have il: "i < length allRows" using "1.prems" by simp
    have nh: "\<not> has_required (map cleanHeader (allRows ! i))"
      using "1.prems"(1) True il by (auto simp: Let_def split: if_splits)
    then have "findHeaderRow_loop allRows max_scan (i + 1) = None"
      using "1.prems"(1) True il by (simp add: Let_def)
    from "1.IH"[OF True refl _ this "1.prems"(2)] nh il
    have r: "\<forall>l. i + 1 \<le> l \<and> l < max_scan \<longrightarrow> \<not> has_required (map cleanHeader (allRows ! l))"
      by auto
    show ?thesis
    proof (intro allI impI)
      fix l assume "i \<le> l \<and> l < max_scan"
      then show "\<not> has_required (map cleanHeader (allRows ! l))"
        using nh r by (cases "l = i") auto
    qed
  qed
qed

lemma findHeaderRow_window:
  "(findHeaderRow allRows = Inr (row, k) \<longrightarrow>
      (\<exists>j. k = j + 1 \<and> j < 15 \<and> j < length allRows \<and> row = map cleanHeader (allRows ! j)
           \<and> has_required row
           \<and> (\<forall>l < j. \<not> has_required (map cleanHeader (allRows ! l)))))
   \<and> (findHeaderRow allRows = Inl e \<longrightarrow>
        e = HeadersNotFound (case allRows of [] \<Rightarrow> [] | first # _ \<Rightarrow> first)
        \<and> (\<forall>l. l < 15 \<and> l < length allRows \<longrightarrow> \<not> has_required (map cleanHeader (allRows ! l))))"
proof (cases "findHeaderRow_loop allRows (min 15 (length allRows)) 0")
  case None
  from findHeaderRow_loop_none[OF None] None show ?thesis
    by (auto simp: findHeaderRow_def)
next
  case (Some found)
  obtain row' k' where f: "found = (row', k')" by (cases found)
  from findHeaderRow_loop_found[OF Some[unfolded f]] Some f show ?thesis
    by (auto simp: findHeaderRow_def)
qed

lemma findIndex_Some:
  "findIndex P xs = Some i \<Longrightarrow> i < length xs \<and> P (xs ! i) \<and> (\<forall>l < i. \<not> P (xs ! l))"
proof (induction xs arbitrary: i)
  case Nil
  then show ?case by simp
next
  case (Cons x xs)
  show ?case
  proof (cases "P x")
    case True
    with Cons.prems show ?thesis by simp
  next
    case False
    with Cons.prems obtain j where j: "findIndex P xs = Some j" "i = Suc j" by auto
    from Cons.IH[OF j(1)] False j(2) show ?thesis
      by (auto simp: nth_Cons split: nat.splits)
  qed
qed

lemma findIndex_None: "findIndex P xs = None \<Longrightarrow> \<forall>x \<in> set xs. \<not> P x"
  by (induction xs) (auto split: if_splits)

lemma findIndex_least:
  "i < length xs \<Longrightarrow> P (xs ! i) \<Longrightarrow> \<forall>l < i. \<not> P (xs ! l) \<Longrightarrow> findIndex P xs = Some i"
proof (cases "findIndex P xs")
  case None
  assume "i < length xs" "P (xs ! i)"
  with findIndex_None[OF None] show ?thesis by auto
next
  case (Some j)
  assume a: "i < length xs" "P (xs ! i)" "\<forall>l < i. \<not> P (xs ! l)"
  from findIndex_Some[OF Some] a have "j = i"
    by (metis linorder_neqE_nat)
  with Some show ?thesis by simp
qed

lemma locate_header_any_index:
  assumes "i < length records" "has_required (map normalizeHeader (records ! i))"
    "\<forall>l < i. \<not> has_required (map normalizeHeader (records ! l))"
  shows "locate_header records = Inr (i, map normalizeHeader (records ! i))"
proof -
  let ?n = "map (map normalizeHeader) records"
  have "findIndex has_required ?n = Some i"
    using assms by (intro findIndex_least) auto
  moreover have "records \<noteq> []" using assms(1) by auto
  ultimately show ?thesis using assms(1) by (simp add: locate_header_def Let_def)
qed

text \<open>
  Claim C2: the header row is looked for in the first 15 rows only, so that a header row at
  index 14 is found and one at index 15 is a fatal error. \<^verbatim>\<open>findHeaderRow\<close> of the script
  does this (\<open>findHeaderRow_window\<close>). \<^verbatim>\<open>OpenproviderRegistrar.parse\<close> searches every row
  (\<open>locate_header_any_index\<close>): with fifteen rows of other text before it, the header row
  at index 15 is found by the class and is the fatal error for the script.
\<close>

theorem header_row_at_index_15:
  "locate_header (replicate 15 [str ''Price list''] @ [REQUIRED_HEADERS])
     = Inr (15, REQUIRED_HEADERS)
   \<and> findHeaderRow (replicate 15 [str ''Price list''] @ [REQUIRED_HEADERS])
     = Inl (HeadersNotFound [str ''Price list''])
   \<and> locate_header (replicate 14 [str ''Price list''] @ [REQUIRED_HEADERS])
     = Inr (14, REQUIRED_HEADERS)
   \<and> findHeaderRow (replicate 14 [str ''Price list''] @ [REQUIRED_HEADERS])
     = Inr (REQUIRED_HEADERS, 15)"
  by code_simp

section \<open>Row processing and maxYears\<close>

lemma entry_of_update:
  "entry_of (AList.update k e data) t = (if t = k then e else entry_of data t)"
  by (simp add: entry_of_def update_conv')


lemma entry_of_store_other: "t \<noteq> rf_tld f \<Longrightarrow> entry_of (store_row f data) t = entry_of data t"
  by (simp add: store_row_def Let_def entry_of_update)





lemma set_price_nonempty: "set_price op p ops \<noteq> [] \<Longrightarrow> ops \<noteq> [] \<or> p \<noteq> None"
  by (cases p) (simp_all add: set_price_def)












lemma in_set_map_filter:
  "y \<in> set (List.map_filter f xs) \<longleftrightarrow> (\<exists>x \<in> set xs. f x = Some y)"
  by (induction xs) (auto split: option.splits)









section \<open>Selection of the cheapest provider\<close>

lemma set_update_subset: "set (AList.update k v al) \<subseteq> insert (k, v) (set al)"
  by (induction al) auto

lemma isFinite_iff: "isFinite n \<longleftrightarrow> (\<exists>x. n = Fin x)"
  by (cases n) auto

lemma normalize_fold_finite:
  "\<forall>(k, n) \<in> set out. isFinite n \<Longrightarrow>
   \<forall>(k, n) \<in> set (foldl (\<lambda>out (op, v). let n = toNumber v in
                                     if isFinite n then AList.update op n out else out)
                   out entries). isFinite n"
proof (induction entries arbitrary: out)
  case Nil
  then show ?case by simp
next
  case (Cons e entries)
  obtain op v where e: "e = (op, v)" by (cases e)
  have "\<forall>(k, n) \<in> set (if isFinite (toNumber v) then AList.update op (toNumber v) out else out).
          isFinite n"
    using Cons.prems set_update_subset[of op "toNumber v" out] by auto
  from Cons.IH[OF this] show ?case by (simp add: e Let_def)
qed

lemma set_sortObjectKeys: "set (sortObjectKeys obj) \<subseteq> set obj"
  by (auto simp: sortObjectKeys_def in_set_map_filter dest: map_of_SomeD)

lemma normalize_finite:
  "(k, n) \<in> set (normalizeRegularPriceMap m) \<Longrightarrow> isFinite n"
proof (cases m)
  case None
  assume "(k, n) \<in> set (normalizeRegularPriceMap m)"
  with None show ?thesis by (simp add: normalizeRegularPriceMap_def)
next
  case (Some entries)
  assume a: "(k, n) \<in> set (normalizeRegularPriceMap m)"
  have "\<forall>(k, n) \<in> set (foldl (\<lambda>out (op, v). let n = toNumber v in
                                     if isFinite n then AList.update op n out else out)
                   [] entries). isFinite n"
    by (rule normalize_fold_finite) simp
  with a Some set_sortObjectKeys show ?thesis
    by (fastforce simp: normalizeRegularPriceMap_def)
qed

lemma min_loop_finite:
  assumes "\<forall>(k, n) \<in> set m. isFinite n"
  shows "\<exists>b. foldl (\<lambda>min (k, n). if isFinite n \<and> js_lt n min then n else min) (Fin a) m = Fin b
             \<and> (b = a \<or> (\<exists>k. (k, Fin b) \<in> set m)) \<and> b \<le> a
             \<and> (\<forall>(k, n) \<in> set m. js_le (Fin b) n)"
  using assms
proof (induction m arbitrary: a)
  case Nil
  then show ?case by simp
next
  case (Cons e m)
  obtain k x where e: "e = (k, Fin x)" using Cons.prems by (cases e) (auto simp: isFinite_iff)
  let ?a' = "if x < a then x else a"
  have fin: "\<forall>(k, n) \<in> set m. isFinite n" using Cons.prems by simp
  from Cons.IH[OF fin, of ?a'] obtain b where
    b: "foldl (\<lambda>min (k, n). if isFinite n \<and> js_lt n min then n else min) (Fin ?a') m = Fin b"
       "b = ?a' \<or> (\<exists>k. (k, Fin b) \<in> set m)" "b \<le> ?a'"
       "\<forall>(k, n) \<in> set m. js_le (Fin b) n"
    by blast
  have "foldl (\<lambda>min (k, n). if isFinite n \<and> js_lt n min then n else min) (Fin a) (e # m) = Fin b"
    using b(1) by (cases "x < a") (simp_all add: e)
  moreover have "b = a \<or> (\<exists>k. (k, Fin b) \<in> set (e # m))"
    using b(2) e by (auto split: if_splits)
  moreover have "b \<le> a" using b(3) by (auto split: if_splits)
  moreover have "\<forall>(k, n) \<in> set (e # m). js_le (Fin b) n"
    using b(3,4) e by (auto simp: js_le_def split: if_splits)
  ultimately show ?case by blast
qed

lemma min_loop_PInf:
  assumes "\<forall>(k, n) \<in> set m. isFinite n" "m \<noteq> []"
  shows "\<exists>b. foldl (\<lambda>min (k, n). if isFinite n \<and> js_lt n min then n else min) PInf m = Fin b
             \<and> (\<exists>k. (k, Fin b) \<in> set m) \<and> (\<forall>(k, n) \<in> set m. js_le (Fin b) n)"
proof -
  obtain e m' where m: "m = e # m'" using assms(2) by (cases m) auto
  obtain k x where e: "e = (k, Fin x)" using assms(1) m by (cases e) (auto simp: isFinite_iff)
  have fin: "\<forall>(k, n) \<in> set m'. isFinite n" using assms(1) m by simp
  from min_loop_finite[OF fin, of x] obtain b where
    b: "foldl (\<lambda>min (k, n). if isFinite n \<and> js_lt n min then n else min) (Fin x) m' = Fin b"
       "b = x \<or> (\<exists>k. (k, Fin b) \<in> set m')" "b \<le> x"
       "\<forall>(k, n) \<in> set m'. js_le (Fin b) n"
    by blast
  have "foldl (\<lambda>min (k, n). if isFinite n \<and> js_lt n min then n else min) PInf m = Fin b"
    using b(1) by (simp add: m e)
  moreover have "\<exists>k. (k, Fin b) \<in> set m" using b(2) m e by auto
  moreover have "\<forall>(k, n) \<in> set m. js_le (Fin b) n"
    using b(3,4) m e by (auto simp: js_le_def)
  ultimately show ?thesis by blast
qed

lemma cheapestMetric_finite_map:
  assumes "\<forall>(k, n) \<in> set m. isFinite n" "m \<noteq> []"
  shows "isFinite (cheapestMetric (Some m))
         \<and> (\<forall>n. map_of m (str ''create'') = Some n \<longrightarrow> cheapestMetric (Some m) = n)
         \<and> (map_of m (str ''create'') = None \<longrightarrow>
              (\<exists>k. (k, cheapestMetric (Some m)) \<in> set m)
              \<and> (\<forall>(k, n) \<in> set m. js_le (cheapestMetric (Some m)) n))"
proof (cases "map_of m (str ''create'')")
  case None
  from min_loop_PInf[OF assms] None show ?thesis
    by (auto simp: cheapestMetric_def)
next
  case (Some n)
  then have "(str ''create'', n) \<in> set m" by (rule map_of_SomeD)
  then obtain x where "n = Fin x" using assms(1) by (auto simp: isFinite_iff)
  with Some show ?thesis by (simp add: cheapestMetric_def)
qed

lemma cheapestMetric_absent: "cheapestMetric None = PInf" "cheapestMetric (Some []) = PInf"
  by (simp_all add: cheapestMetric_def)

lemma beats_refl: "beats a a"
  by (simp add: beats_def)

lemma beats_trans:
  "isFinite (metric a) \<Longrightarrow> isFinite (metric b) \<Longrightarrow> isFinite (metric c) \<Longrightarrow>
   beats a b \<Longrightarrow> beats b c \<Longrightarrow> beats a c"
  by (auto simp: beats_def isFinite_iff)

lemma test_beats:
  "isFinite (metric a) \<Longrightarrow> isFinite (metric b) \<Longrightarrow>
   js_lt (metric a) (metric b) \<or> (js_eq (metric a) (metric b) \<and> provider a < provider b)
   \<Longrightarrow> beats a b"
  by (auto simp: beats_def isFinite_iff)

lemma not_test_beats:
  "isFinite (metric a) \<Longrightarrow> isFinite (metric b) \<Longrightarrow>
   \<not> (js_lt (metric a) (metric b) \<or> (js_eq (metric a) (metric b) \<and> provider a < provider b))
   \<Longrightarrow> beats b a"
  by (auto simp: beats_def isFinite_iff)

lemma pick_best_min:
  assumes "\<forall>c \<in> set (best # rest). isFinite (metric c)" "bestMetric = metric best"
  shows "pick_best best bestMetric rest \<in> set (best # rest)
         \<and> (\<forall>c \<in> set (best # rest). beats (pick_best best bestMetric rest) c)"
  using assms
proof (induction rest arbitrary: best bestMetric)
  case Nil
  then show ?case by (simp add: beats_refl)
next
  case (Cons cand rest)
  let ?test = "js_lt (metric cand) (metric best)
               \<or> (js_eq (metric cand) (metric best) \<and> provider cand < provider best)"
  have fb: "isFinite (metric best)" and fc: "isFinite (metric cand)"
    and fr: "\<forall>c \<in> set rest. isFinite (metric c)"
    using Cons.prems(1) by auto
  show ?case
  proof (cases ?test)
    case True
    let ?r = "pick_best cand (metric cand) rest"
    have step: "pick_best best bestMetric (cand # rest) = ?r"
      using True Cons.prems(2) by (simp add: metric_def Let_def)
    have "\<forall>c \<in> set (cand # rest). isFinite (metric c)" using fc fr by simp
    from Cons.IH[OF this refl] have r: "?r \<in> set (cand # rest)"
      "\<forall>c \<in> set (cand # rest). beats ?r c" by auto
    have frr: "isFinite (metric ?r)" using r(1) fc fr by auto
    have "beats ?r cand" using r(2) by simp
    moreover have "beats cand best" using test_beats[OF fc fb True] .
    ultimately have "beats ?r best" using beats_trans[OF frr fc fb] by blast
    with r step show ?thesis by auto
  next
    case False
    let ?r = "pick_best best (metric best) rest"
    have step: "pick_best best bestMetric (cand # rest) = ?r"
      using False Cons.prems(2) by (auto simp: metric_def Let_def)
    have "\<forall>c \<in> set (best # rest). isFinite (metric c)" using fb fr by simp
    from Cons.IH[OF this refl] have r: "?r \<in> set (best # rest)"
      "\<forall>c \<in> set (best # rest). beats ?r c" by auto
    have frr: "isFinite (metric ?r)" using r(1) fb fr by auto
    have "beats ?r best" using r(2) by simp
    moreover have "beats best cand" using not_test_beats[OF fc fb False] .
    ultimately have "beats ?r cand" using beats_trans[OF frr fb fc] by blast
    with r step show ?thesis by auto
  qed
qed

lemma select_best_min:
  assumes "\<forall>c \<in> set options. isFinite (metric c)" "select_best options = Some e"
  shows "e \<in> set options \<and> (\<forall>c \<in> set options. beats e c)"
proof (cases options)
  case Nil
  with assms(2) show ?thesis by (simp add: select_best_def)
next
  case (Cons first rest)
  with assms(2) have e: "e = pick_best first (metric first) rest"
    by (simp add: select_best_def metric_def)
  from pick_best_min[of first rest "metric first"] assms(1) Cons e show ?thesis by simp
qed

lemma select_best_nonempty: "options \<noteq> [] \<Longrightarrow> \<exists>e. select_best options = Some e"
  by (cases options) (simp_all add: select_best_def)

lemma well_formed_update:
  "well_formed cbt \<Longrightarrow> options \<noteq> [] \<Longrightarrow> well_formed (AList.update t options cbt)"
  using set_update_subset[of t options cbt]
  by (auto simp: well_formed_def distinct_update)

lemma options_of_update:
  "options_of (AList.update k v cbt) t = (if t = k then v else options_of cbt t)"
  by (simp add: options_of_def update_conv')

lemma add_candidate_options:
  "options_of (add_candidate p cbt te) t =
     options_of cbt t @
       (if fst te = t \<and> normalizeRegularPriceMap (snd te) \<noteq> []
        then [\<lparr> provider = p, cand_tld = t, regular_price = normalizeRegularPriceMap (snd te) \<rparr>]
        else [])"
  by (auto simp: add_candidate_def Let_def options_of_update) (simp add: options_of_def)

lemma add_candidate_well_formed: "well_formed cbt \<Longrightarrow> well_formed (add_candidate p cbt te)"
  by (simp add: add_candidate_def Let_def well_formed_update)

lemma fold_add_candidate:
  "options_of (foldl (add_candidate p) cbt d) t =
     options_of cbt t @
       map (\<lambda>regular. \<lparr> provider = p, cand_tld = t, regular_price = regular \<rparr>)
         (filter (\<lambda>regular. regular \<noteq> [])
            (map (\<lambda>te. normalizeRegularPriceMap (snd te)) (filter (\<lambda>te. fst te = t) d)))"
  by (induction d arbitrary: cbt) (simp_all add: add_candidate_options)

lemma fold_add_candidate_well_formed:
  "well_formed cbt \<Longrightarrow> well_formed (foldl (add_candidate p) cbt d)"
  by (induction d arbitrary: cbt) (simp_all add: add_candidate_well_formed)

lemma add_provider_options:
  "options_of (add_provider results cbt p) t =
     options_of cbt t @
       (case map_of results p of
          None \<Rightarrow> []
        | Some result \<Rightarrow>
            map (\<lambda>regular. \<lparr> provider = p, cand_tld = t, regular_price = regular \<rparr>)
              (offers result t))"
  by (simp add: add_provider_def offers_def fold_add_candidate split: option.splits)

lemma add_provider_well_formed: "well_formed cbt \<Longrightarrow> well_formed (add_provider results cbt p)"
  by (simp add: add_provider_def fold_add_candidate_well_formed split: option.splits)

lemma fold_add_provider:
  "options_of (foldl (add_provider results) cbt ps) t =
     options_of cbt t @
       concat (map (\<lambda>p. case map_of results p of
                        None \<Rightarrow> []
                      | Some result \<Rightarrow>
                          map (\<lambda>regular. \<lparr> provider = p, cand_tld = t, regular_price = regular \<rparr>)
                              (offers result t)) ps)"
  by (induction ps arbitrary: cbt) (simp_all add: add_provider_options)

lemma fold_add_provider_well_formed:
  "well_formed cbt \<Longrightarrow> well_formed (foldl (add_provider results) cbt ps)"
  by (induction ps arbitrary: cbt) (simp_all add: add_provider_well_formed)

lemma collect_candidates_options:
  "options_of (collect_candidates results providers) t = candidates_of results providers t"
  by (simp add: collect_candidates_def candidates_of_def fold_add_provider) (simp add: options_of_def)

lemma collect_candidates_well_formed: "well_formed (collect_candidates results providers)"
proof -
  have "well_formed []" by (simp add: well_formed_def)
  then show ?thesis
    unfolding collect_candidates_def by (rule fold_add_provider_well_formed)
qed

lemma well_formed_entry:
  assumes "well_formed cbt"
  shows "(t, options) \<in> set cbt \<longleftrightarrow> options \<noteq> [] \<and> options_of cbt t = options"
proof
  assume m: "(t, options) \<in> set cbt"
  have d: "distinct (map fst cbt)" using assms by (simp add: well_formed_def)
  from map_of_is_SomeI[OF d m] have "options_of cbt t = options" by (simp add: options_of_def)
  moreover have "options \<noteq> []" using assms m by (auto simp: well_formed_def)
  ultimately show "options \<noteq> [] \<and> options_of cbt t = options" by simp
next
  assume "options \<noteq> [] \<and> options_of cbt t = options"
  then show "(t, options) \<in> set cbt"
    by (auto simp: options_of_def split: option.splits dest: map_of_SomeD)
qed

lemma candidates_of_fields:
  "c \<in> set (candidates_of results providers t) \<Longrightarrow>
     cand_tld c = t \<and> regular_price c \<noteq> [] \<and> (\<forall>(k, n) \<in> set (regular_price c). isFinite n)"
  by (auto simp: candidates_of_def offers_def split: option.splits dest: normalize_finite)

lemma unified_member:
  "e \<in> set (generateUnifiedList results providers) \<longleftrightarrow>
     (\<exists>t. candidates_of results providers t \<noteq> []
          \<and> select_best (candidates_of results providers t) = Some e)"
proof -
  let ?cbt = "collect_candidates results providers"
  have wf: "well_formed ?cbt" by (rule collect_candidates_well_formed)
  have "e \<in> set (generateUnifiedList results providers) \<longleftrightarrow>
          (\<exists>x \<in> set ?cbt. select_best (snd x) = Some e)"
    by (simp add: generateUnifiedList_def in_set_map_filter case_prod_beta)
  also have "\<dots> \<longleftrightarrow> (\<exists>t options. (t, options) \<in> set ?cbt \<and> select_best options = Some e)"
    by force
  also have "\<dots> \<longleftrightarrow> (\<exists>t. candidates_of results providers t \<noteq> []
          \<and> select_best (candidates_of results providers t) = Some e)"
    by (auto simp: well_formed_entry[OF wf] collect_candidates_options)
  finally show ?thesis .
qed

lemma candidates_finite_metric:
  "c \<in> set (candidates_of results providers t) \<Longrightarrow> isFinite (metric c)"
  using candidates_of_fields[of c results providers t] cheapestMetric_finite_map[of "regular_price c"]
  by (simp add: metric_def)

lemma unified_choice:
  assumes "e \<in> set (generateUnifiedList results providers)"
  shows "e \<in> set (candidates_of results providers (cand_tld e))
         \<and> (\<forall>c \<in> set (candidates_of results providers (cand_tld e)). beats e c)"
proof -
  from assms unified_member obtain t where
    t: "candidates_of results providers t \<noteq> []"
       "select_best (candidates_of results providers t) = Some e"
    by blast
  have fin: "\<forall>c \<in> set (candidates_of results providers t). isFinite (metric c)"
    using candidates_finite_metric by blast
  from select_best_min[OF fin t(2)] have
    m: "e \<in> set (candidates_of results providers t)"
       "\<forall>c \<in> set (candidates_of results providers t). beats e c" by auto
  from candidates_of_fields[OF m(1)] have "cand_tld e = t" by simp
  with m show ?thesis by simp
qed

text \<open>
  Claim C1. Every entry of the unified list is, among the candidates of its TLD (one per
  included provider whose normalized regular map for the TLD is not empty), one with the
  lowest metric, and among the candidates of that metric one with the least provider id in
  the order of the code units; every TLD with a candidate has exactly one entry. The metric
  of a candidate is finite: it is the \<^verbatim>\<open>create\<close> price when the regular map has one, and
  otherwise a value of the map that no value of the map is below. An absent or empty
  regular map has the metric infinity and gives no candidate.
\<close>

theorem unified_selects_cheapest:
  "(e \<in> set (generateUnifiedList results providers) \<longrightarrow>
      e \<in> set (candidates_of results providers (cand_tld e))
      \<and> (\<forall>c \<in> set (candidates_of results providers (cand_tld e)).
            js_lt (metric e) (metric c)
            \<or> (metric e = metric c \<and> provider e \<le> provider c)))
   \<and> (candidates_of results providers t \<noteq> [] \<longrightarrow>
        (\<exists>w \<in> set (generateUnifiedList results providers). cand_tld w = t))
   \<and> (e \<in> set (generateUnifiedList results providers)
        \<and> e' \<in> set (generateUnifiedList results providers)
        \<and> cand_tld e = cand_tld e' \<longrightarrow> e = e')
   \<and> (c \<in> set (candidates_of results providers t) \<longrightarrow>
        regular_price c \<noteq> [] \<and> isFinite (metric c)
        \<and> (\<forall>n. map_of (regular_price c) (str ''create'') = Some n \<longrightarrow> metric c = n)
        \<and> (map_of (regular_price c) (str ''create'') = None \<longrightarrow>
             (\<exists>k. (k, metric c) \<in> set (regular_price c))
             \<and> (\<forall>(k, n) \<in> set (regular_price c). js_le (metric c) n)))
   \<and> cheapestMetric None = PInf \<and> cheapestMetric (Some []) = PInf"
proof -
  have a: "e \<in> set (generateUnifiedList results providers) \<longrightarrow>
      e \<in> set (candidates_of results providers (cand_tld e))
      \<and> (\<forall>c \<in> set (candidates_of results providers (cand_tld e)).
            js_lt (metric e) (metric c)
            \<or> (metric e = metric c \<and> provider e \<le> provider c))"
    using unified_choice[of e results providers] by (simp add: beats_def)
  have b: "candidates_of results providers t \<noteq> [] \<longrightarrow>
        (\<exists>w \<in> set (generateUnifiedList results providers). cand_tld w = t)"
  proof
    assume ne: "candidates_of results providers t \<noteq> []"
    from select_best_nonempty[OF ne] obtain w where
      w: "select_best (candidates_of results providers t) = Some w" by blast
    with ne have in_list: "w \<in> set (generateUnifiedList results providers)"
      using unified_member by blast
    have fin: "\<forall>c \<in> set (candidates_of results providers t). isFinite (metric c)"
      using candidates_finite_metric by blast
    from select_best_min[OF fin w] candidates_of_fields have "cand_tld w = t" by blast
    with in_list show "\<exists>w \<in> set (generateUnifiedList results providers). cand_tld w = t" by blast
  qed
  have c: "e \<in> set (generateUnifiedList results providers)
        \<and> e' \<in> set (generateUnifiedList results providers)
        \<and> cand_tld e = cand_tld e' \<longrightarrow> e = e'"
  proof (intro impI, elim conjE)
    assume e: "e \<in> set (generateUnifiedList results providers)"
      and e': "e' \<in> set (generateUnifiedList results providers)"
      and same: "cand_tld e = cand_tld e'"
    have fin: "\<And>u. \<forall>c \<in> set (candidates_of results providers u). isFinite (metric c)"
      using candidates_finite_metric by blast
    from e unified_member obtain u where
      u: "select_best (candidates_of results providers u) = Some e" by blast
    from e' unified_member obtain u' where
      u': "select_best (candidates_of results providers u') = Some e'" by blast
    from select_best_min[OF fin u] candidates_of_fields have "cand_tld e = u" by blast
    moreover from select_best_min[OF fin u'] candidates_of_fields have "cand_tld e' = u'" by blast
    ultimately show "e = e'" using same u u' by simp
  qed
  have d: "c \<in> set (candidates_of results providers t) \<longrightarrow>
        regular_price c \<noteq> [] \<and> isFinite (metric c)
        \<and> (\<forall>n. map_of (regular_price c) (str ''create'') = Some n \<longrightarrow> metric c = n)
        \<and> (map_of (regular_price c) (str ''create'') = None \<longrightarrow>
             (\<exists>k. (k, metric c) \<in> set (regular_price c))
             \<and> (\<forall>(k, n) \<in> set (regular_price c). js_le (metric c) n))"
    using candidates_of_fields[of c results providers t]
      cheapestMetric_finite_map[of "regular_price c"]
    by (simp add: metric_def)
  show ?thesis using a b c d cheapestMetric_absent by blast
qed

theorem unified_selects_cheapest_witness:
  "generateUnifiedList unify_example [] = [unify_com, unify_net]
   \<and> candidates_of unify_example [] (str ''net'') = [unify_net_b, unify_net]
   \<and> unify_net \<in> set (candidates_of unify_example [] (cand_tld unify_net))
   \<and> (js_lt (metric unify_net) (metric unify_net_b)
        \<or> (metric unify_net = metric unify_net_b \<and> provider unify_net \<le> provider unify_net_b))
   \<and> (\<exists>w \<in> set (generateUnifiedList unify_example []). cand_tld w = str ''net'')
   \<and> map_of (regular_price unify_net_b) (str ''create'') = None
   \<and> (\<exists>k. (k, metric unify_net_b) \<in> set (regular_price unify_net_b))
   \<and> js_le (metric unify_net_b) (Fin 5) \<and> js_le (metric unify_net_b) (Fin 9)
   \<and> map_of (regular_price unify_com) (str ''create'') = Some (Fin (13 / 2))
   \<and> metric unify_com = Fin (13 / 2)"
proof -
  have h1: "generateUnifiedList unify_example [] = [unify_com, unify_net]" by code_simp
  have h2: "candidates_of unify_example [] (str ''net'') = [unify_net_b, unify_net]" by code_simp
  have h3: "candidates_of unify_example [] (str ''com'') = [unify_com, unify_com_a]" by code_simp
  have h4: "map_of (regular_price unify_net_b) (str ''create'') = None" by code_simp
  have h5: "map_of (regular_price unify_com) (str ''create'') = Some (Fin (13 / 2))" by code_simp
  have t: "cand_tld unify_net = str ''net''" by (simp add: unify_net_def)
  have r: "regular_price unify_net_b = [(str ''renew'', Fin 5), (str ''transfer'', Fin 9)]"
    by (simp add: unify_net_b_def)
  have m1: "unify_net \<in> set (generateUnifiedList unify_example [])" using h1 by simp
  have m2: "candidates_of unify_example [] (str ''net'') \<noteq> []" using h2 by simp
  have m3: "unify_net_b \<in> set (candidates_of unify_example [] (str ''net''))" using h2 by simp
  have m4: "unify_com \<in> set (candidates_of unify_example [] (str ''com''))" using h3 by simp
  note a = unified_selects_cheapest[where e = unify_net and e' = unify_net
      and results = unify_example and providers = "[]" and t = "str ''net''" and c = unify_net_b]
  note b = unified_selects_cheapest[where e = unify_net and e' = unify_net
      and results = unify_example and providers = "[]" and t = "str ''com''" and c = unify_com]
  have c1: "unify_net \<in> set (candidates_of unify_example [] (cand_tld unify_net))
     \<and> (\<forall>c \<in> set (candidates_of unify_example [] (cand_tld unify_net)).
          js_lt (metric unify_net) (metric c)
          \<or> (metric unify_net = metric c \<and> provider unify_net \<le> provider c))"
    using a m1 by blast
  then have c1': "js_lt (metric unify_net) (metric unify_net_b)
        \<or> (metric unify_net = metric unify_net_b \<and> provider unify_net \<le> provider unify_net_b)"
    using m3 t by simp
  have c2: "\<exists>w \<in> set (generateUnifiedList unify_example []). cand_tld w = str ''net''"
    using a m2 by blast
  have c3: "(\<exists>k. (k, metric unify_net_b) \<in> set (regular_price unify_net_b))
     \<and> (\<forall>(k, n) \<in> set (regular_price unify_net_b). js_le (metric unify_net_b) n)"
    using a m3 h4 by blast
  then have c3': "js_le (metric unify_net_b) (Fin 5) \<and> js_le (metric unify_net_b) (Fin 9)"
    by (simp add: r)
  have c4: "metric unify_com = Fin (13 / 2)"
    using b m4 h5 by blast
  show ?thesis using h1 h2 h4 h5 c1 c1' c2 c3 c3' c4 by blast
qed

section \<open>Price entries and their duration\<close>
















subsection \<open>The metadata filter of the generator\<close>

lemma generate_tld_keys:
  "fst ` set (generate_tld meta saleT regularT out t) =
     (if \<not> marked_unregisterable meta t \<and> (table_row saleT t \<noteq> [] \<or> table_row regularT t \<noteq> [])
      then insert t (fst ` set out) else fst ` set out)"
  by (simp add: generate_tld_def Let_def marked_unregisterable_def dom_update
           split: option.splits)

lemma generate_fold_keys:
  "fst ` set (foldl (generate_tld meta saleT regularT) out ts) =
     fst ` set out \<union>
       {t \<in> set ts. \<not> marked_unregisterable meta t
                     \<and> (table_row saleT t \<noteq> [] \<or> table_row regularT t \<noteq> [])}"
  by (induction ts arbitrary: out) (auto simp: generate_tld_keys)

lemma set_set_keys: "set (set_keys ks) = set ks"
  by (simp add: set_keys_def)

lemma table_row_nonempty_key: "table_row table t \<noteq> [] \<Longrightarrow> t \<in> fst ` set table"
  by (auto simp: table_row_def split: option.splits dest: map_of_SomeD intro: rev_image_eqI)

lemma generate_data_keys:
  "t \<in> fst ` set (generate_data meta saleT regularT) \<longleftrightarrow>
     (table_row saleT t \<noteq> [] \<or> table_row regularT t \<noteq> []) \<and> \<not> marked_unregisterable meta t"
  using table_row_nonempty_key[of saleT t] table_row_nonempty_key[of regularT t]
  by (auto simp: generate_data_def generate_fold_keys set_set_keys)




text \<open>
  Claim C7: a TLD is left out of the output exactly when its metadata marks it as not
  registerable through the API. The generator does so among the TLDs that have a price
  (\<open>generate_data_keys\<close>). \<^verbatim>\<open>NamecheapRegistrar.map\<close> never reads the flag: with \<^verbatim>\<open>com\<close> marked
  as not registerable and priced, the class emits the item \<^verbatim>\<open>com\<close>, the generator emits
  nothing, and without metadata the generator emits \<^verbatim>\<open>com\<close>.
\<close>

theorem registrar_emits_unregisterable:
  "map_of unregisterable_com (str ''com'') =
     Some \<lparr> MaxRegisterYears = Fin 10, MaxRenewYears = Fin 9, MaxTransferYears = Fin 1,
            IsApiRegisterable = False \<rparr>
   \<and> namecheap_items unregisterable_com (\<lambda>a. price_response [one_year_price])
       = Inr [\<lparr> ni_tld = str ''com'', ni_maxYears = Some (Fin 10),
                ni_bands = [\<lparr> ab_id = str ''regular'', ab_label = str ''Regular price'',
                              ab_operations = [(str ''create'', Fin (222 / 25))] \<rparr>] \<rparr>]
   \<and> namecheap_generate unregisterable_com (\<lambda>a. price_response [one_year_price]) = Inr []
   \<and> namecheap_generate [] (\<lambda>a. price_response [one_year_price])
       = Inr [(str ''com'', \<lparr> nc_maxYears = Fin 0,
                               nc_regular = [(str ''create'', Fin (549 / 50))],
                               nc_sale = [(str ''create'', Fin (222 / 25))] \<rparr>)]"
  by code_simp

section \<open>Conversion at the FX rate\<close>

lemma nira_parse_usable:
  "nira_parse fx = Inr rate \<longleftrightarrow>
     rate = toNumber (rate_field (ngn_entry fx)) \<and> (\<exists>v. rate = Fin v \<and> 0 < v)"
  by (cases "toNumber (rate_field (ngn_entry fx))")
     (auto simp: nira_parse_def Let_def js_le_def)

lemma nira_parse_fatal:
  "nira_parse fx = Inl e \<longleftrightarrow>
     e = RateUnusable \<and> \<not> (\<exists>v. toNumber (rate_field (ngn_entry fx)) = Fin v \<and> 0 < v)"
  by (cases "toNumber (rate_field (ngn_entry fx))")
     (auto simp: nira_parse_def Let_def js_le_def)

lemma nira_registrar_contract:
  "(nira_registrar fx = Inr out \<longrightarrow>
      (\<exists>v. toNumber (rate_field (ngn_entry fx)) = Fin v \<and> 0 < v
           \<and> out = map (\<lambda>(t, P). (t, [(str ''create'', round2 (js_div (Fin P) (Fin v))),
                                       (str ''renew'', round2 (js_div (Fin P) (Fin v)))]))
                       NGN_PRICES))
   \<and> (nira_registrar fx = Inl e \<longrightarrow>
        e = RateUnusable \<and> \<not> (\<exists>v. toNumber (rate_field (ngn_entry fx)) = Fin v \<and> 0 < v))"
proof (cases "nira_parse fx")
  case (Inl e')
  then show ?thesis using nira_parse_fatal[of fx e'] by (auto simp: nira_registrar_def)
next
  case (Inr rate)
  then show ?thesis using nira_parse_usable[of fx rate]
    by (auto simp: nira_registrar_def convert_prices_def Let_def)
qed

text \<open>
  Claim C8: every namespace price is converted as \<^verbatim>\<open>round(P / r * 100) / 100\<close>, the same
  for \<^verbatim>\<open>create\<close> and \<^verbatim>\<open>renew\<close>, and the adapter fails when the rate is missing, not
  finite or not positive. \<^verbatim>\<open>NiraRegistrar.parse\<close> does so (\<open>nira_registrar_contract\<close>), and at
  1500 NGN for a dollar both copies give 10 for \<^verbatim>\<open>ng\<close>. \<^verbatim>\<open>niraGenerator.generate\<close> tests
  only that the rate is truthy and finite: at the rate \<open>-1500\<close> it emits the price
  \<open>-10\<close> for \<^verbatim>\<open>ng\<close> where the class fails.
\<close>

theorem nira_generator_negative_rate:
  "rate_field (ngn_entry fx_negative) = Num (Fin (- 1500))
   \<and> nira_generator fx_negative =
       Inr [(str ''ng'', [(str ''create'', Fin (- 10)), (str ''renew'', Fin (- 10))]),
            (str ''com.ng'', [(str ''create'', Fin (- (467 / 100))), (str ''renew'', Fin (- (467 / 100)))]),
            (str ''org.ng'', [(str ''create'', Fin (- (467 / 100))), (str ''renew'', Fin (- (467 / 100)))]),
            (str ''name.ng'', [(str ''create'', Fin (- (27 / 100))), (str ''renew'', Fin (- (27 / 100)))])]
   \<and> nira_registrar fx_negative = Inl RateUnusable
   \<and> nira_generator fx_1500 = nira_registrar fx_1500
   \<and> nira_registrar fx_1500 =
       Inr [(str ''ng'', [(str ''create'', Fin 10), (str ''renew'', Fin 10)]),
            (str ''com.ng'', [(str ''create'', Fin (467 / 100)), (str ''renew'', Fin (467 / 100))]),
            (str ''org.ng'', [(str ''create'', Fin (467 / 100)), (str ''renew'', Fin (467 / 100))]),
            (str ''name.ng'', [(str ''create'', Fin (27 / 100)), (str ''renew'', Fin (27 / 100))])]"
  by code_simp

theorem nira_generator_negative_rate_witness:
  "nira_generator fx_negative \<noteq> Inl RateUnusable \<and> nira_registrar fx_negative = Inl RateUnusable"
  using nira_generator_negative_rate by simp

section \<open>Reading the cache and the TTL policy\<close>













end
